theory Spec2Isabelle
  imports Complex_Main
begin

section \<open>Umbrella-sampling PMF example: a model of the analysis script\<close>

text \<open>
  The script \<^verbatim>\<open>examples/umbrella-sampling-pmf/umbrella-sampling-kldiverge.py\<close> is a
  straight-line program over global variables. Each of its stages is modelled here as a
  function from the variables it reads to the variables it writes, named after the
  variable it produces.

  Conventions of the model:
  \<^item> numpy \<^verbatim>\<open>float64\<close> values are modelled as real numbers; there is no infinity and no
    NaN. The rounding of float64 arithmetic is modelled, by \<open>round64\<close>, where a property
    stated below depends on it: in the additions and subtractions of the wrapping loops
    (lines 106--109) and in the subtraction of line 155. The other operations are exact.
  \<^item> a numpy vector is a list, a matrix a list of rows; an index is checked where the
    script can run out of range.
  \<^item> a Python exception is a value of type \<open>error\<close>; a \<^verbatim>\<open>while\<close> loop that does not
    return is the outcome \<open>NonTermination\<close>.
  \<^item> functions of Python, numpy and the \<^verbatim>\<open>pymbar\<close> library that the script calls
    (\<^verbatim>\<open>float\<close>, \<^verbatim>\<open>timeseries.*\<close>, the \<^verbatim>\<open>PMF\<close> object) are parameters, collected in the
    record \<open>externals\<close>; files are given as their lists of lines.
\<close>

subsection \<open>Errors and Python primitives\<close>

datatype error =
  IndexError | ValueError | KeyError | NameError | ZeroDivisionError | LibraryError | NonTermination

definition rbind :: "error + 'a \<Rightarrow> ('a \<Rightarrow> error + 'b) \<Rightarrow> error + 'b" where
  "rbind r f = (case r of Inl e \<Rightarrow> Inl e | Inr x \<Rightarrow> f x)"

text \<open>A \<^verbatim>\<open>for\<close> loop over a sequence whose body may raise: the first exception ends it.\<close>

fun for_each :: "('a \<Rightarrow> 's \<Rightarrow> error + 's) \<Rightarrow> 'a list \<Rightarrow> 's \<Rightarrow> error + 's" where
  "for_each body [] s = Inr s"
| "for_each body (x # xs) s = (case body x s of Inl e \<Rightarrow> Inl e | Inr s' \<Rightarrow> for_each body xs s')"

text \<open>\<^verbatim>\<open>xs[i]\<close> for a non-negative index \<open>i\<close>.\<close>

definition index :: "'a list \<Rightarrow> nat \<Rightarrow> error + 'a" where
  "index xs i = (if i < length xs then Inr (xs ! i) else Inl IndexError)"

text \<open>\<^verbatim>\<open>xs[i]\<close> for an integer index: numpy and Python count a negative index from the end.\<close>

definition index_int :: "'a list \<Rightarrow> int \<Rightarrow> error + 'a" where
  "index_int xs i =
     (if 0 \<le> i \<and> i < int (length xs) then Inr (xs ! nat i)
      else if i < 0 \<and> - int (length xs) \<le> i then Inr (xs ! nat (int (length xs) + i))
      else Inl IndexError)"

text \<open>\<^verbatim>\<open>line.split()\<close>: the maximal runs of non-whitespace characters (ASCII whitespace).\<close>

definition is_space :: "char \<Rightarrow> bool" where
  "is_space c = (c \<in> set [CHR '' '', CHR 0x09, CHR 0x0A, CHR 0x0B, CHR 0x0C, CHR 0x0D])"

fun split_from :: "string \<Rightarrow> string \<Rightarrow> string list" where
  "split_from cur [] = (if cur = [] then [] else [cur])"
| "split_from cur (c # cs) =
     (if is_space c then (if cur = [] then split_from [] cs else cur # split_from [] cs)
      else split_from (cur @ [c]) cs)"

definition str_split :: "string \<Rightarrow> string list" where
  "str_split line = split_from [] line"

subsection \<open>float64 arithmetic\<close>

text \<open>
  IEEE 754 rounds the exact result of an operation to the nearest float64, a tie going to
  the one with the even significand. \<open>ulp x\<close> is the distance between neighbouring
  float64 values around \<open>x\<close> (53 significant bits, least normal exponent -1022), and
  \<open>round64 x\<close> the multiple of \<open>ulp x\<close> nearest to \<open>x\<close>. This is the float64 result
  whenever that is finite; overflow to infinity is not modelled.
\<close>

definition round_even :: "real \<Rightarrow> int" where
  "round_even q =
     (let f = \<lfloor>q\<rfloor>; r = q - of_int f
      in if r < 1 / 2 then f else if 1 / 2 < r then f + 1 else if even f then f else f + 1)"

definition ulp :: "real \<Rightarrow> real" where
  "ulp x = 2 powi (max \<lfloor>log 2 \<bar>x\<bar>\<rfloor> (-1022) - 52)"

definition round64 :: "real \<Rightarrow> real" where
  "round64 x = (if x = 0 then 0 else of_int (round_even (x / ulp x)) * ulp x)"

subsection \<open>Library functions the script calls\<close>

text \<open>
  \<open>pyfloat\<close> is Python's \<^verbatim>\<open>float\<close> on a string (\<open>None\<close>: it raises ValueError).
  \<open>statisticalInefficiency A B\<close> and \<open>subsampleCorrelatedData A g\<close> are the two functions
  of \<^verbatim>\<open>pymbar.timeseries\<close>, with their optional second arguments. The \<^verbatim>\<open>PMF\<close> object of
  \<^verbatim>\<open>pymbar\<close> appears further down.
\<close>

record externals =
  pyfloat :: "string \<Rightarrow> real option"
  statisticalInefficiency :: "real list \<Rightarrow> real list option \<Rightarrow> error + real"
  subsampleCorrelatedData :: "real list \<Rightarrow> real option \<Rightarrow> error + int list"

text \<open>\<^verbatim>\<open>float(tokens[i])\<close>\<close>

definition float_token :: "externals \<Rightarrow> string list \<Rightarrow> nat \<Rightarrow> error + real" where
  "float_token ext tokens i =
     rbind (index tokens i)
       (\<lambda>s. case pyfloat ext s of None \<Rightarrow> Inl ValueError | Some x \<Rightarrow> Inr x)"

subsection \<open>Constants and parameters (lines 13--72)\<close>

definition kB :: real where
  "kB = (1381 / 10 ^ 26) * (6022 * 10 ^ 20) / 1000"

record config =
  temperature :: real
  K :: nat
  N_max :: nat
  chi_min :: real
  chi_max :: real
  nbins :: nat
  nsplines :: nat
  nplot :: nat
  nbootstraps :: nat
  optimization_algorithm :: string
  methods :: "string list"

text \<open>The values the script sets.\<close>

definition script_config :: config where
  "script_config = \<lparr>temperature = 300, K = 26, N_max = 501, chi_min = -180, chi_max = 180,
     nbins = 40, nsplines = 15, nplot = 1000, nbootstraps = 0,
     optimization_algorithm = ''Custom-NR'', methods = [''kde'', ''simple-3'']\<rparr>"

definition beta :: "config \<Rightarrow> real" where
  "beta cfg = 1 / (kB * temperature cfg)"

text \<open>The arrays allocated on lines 59 and 67--72, and later filled.\<close>

record data =
  N_k :: "nat list"
  K_k :: "real list"
  chi0_k :: "real list"
  T_k :: "real list"
  chi_kn :: "real list list"
  u_kn :: "real list list"
  g_k :: "real list"

definition allocate :: "config \<Rightarrow> data" where
  "allocate cfg = \<lparr>N_k = replicate (K cfg) 0, K_k = replicate (K cfg) 0,
     chi0_k = replicate (K cfg) 0, T_k = replicate (K cfg) (temperature cfg),
     chi_kn = replicate (K cfg) (replicate (N_max cfg) 0),
     u_kn = replicate (K cfg) (replicate (N_max cfg) 0),
     g_k = replicate (K cfg) 0\<rparr>"

text \<open>\<^verbatim>\<open>a[k,n] = v\<close> on a matrix.\<close>

definition set_kn :: "'a list list \<Rightarrow> nat \<Rightarrow> nat \<Rightarrow> 'a \<Rightarrow> 'a list list" where
  "set_kn a k n v = a[k := (a ! k)[n := v]]"

subsection \<open>Reading the umbrella centers (lines 74--90)\<close>

definition read_center :: "externals \<Rightarrow> string list \<Rightarrow> nat \<Rightarrow> data \<Rightarrow> error + data" where
  "read_center ext lines k d =
     rbind (index lines k) (\<lambda>line.
       let tokens = str_split line in
       rbind (float_token ext tokens 0) (\<lambda>c.
         let d1 = d\<lparr>chi0_k := (chi0_k d)[k := c]\<rparr> in
         rbind (float_token ext tokens 1) (\<lambda>s.
           let d2 = d1\<lparr>K_k := (K_k d1)[k := s * (pi / 180)\<^sup>2]\<rparr> in
           if length tokens > 2
           then rbind (float_token ext tokens 2) (\<lambda>t. Inr (d2\<lparr>T_k := (T_k d2)[k := t]\<rparr>))
           else Inr d2)))"

definition read_centers :: "externals \<Rightarrow> config \<Rightarrow> string list \<Rightarrow> data \<Rightarrow> error + data" where
  "read_centers ext cfg lines d = for_each (read_center ext lines) [0..<K cfg] d"

text \<open>\<^verbatim>\<open>beta_k = 1.0/(kB*T_k)\<close>, elementwise.\<close>

definition beta_k :: "data \<Rightarrow> real list" where
  "beta_k d = map (\<lambda>T. 1 / (kB * T)) (T_k d)"

text \<open>
  \<^verbatim>\<open>DifferentTemperatures\<close>: false when \<^verbatim>\<open>min(T_k) == max(T_k)\<close>. Python's
  \<^verbatim>\<open>min\<close> of an empty array raises.
\<close>

definition DifferentTemperatures :: "data \<Rightarrow> error + bool" where
  "DifferentTemperatures d =
     (if T_k d = [] then Inl ValueError
      else Inr (\<not> (Min (set (T_k d)) = Max (set (T_k d)))))"

subsection \<open>Reading one window (lines 92--149)\<close>

text \<open>
  The two wrapping loops of lines 106--109. Each is a \<^verbatim>\<open>while\<close> loop, so each is a partial
  function: \<open>None\<close> stands for a loop that never exits. \<^verbatim>\<open>chi += 360.0\<close> and
  \<^verbatim>\<open>chi -= 360.0\<close> are float64 operations: the sum and the difference are rounded.
\<close>

partial_function (option) wrap_below :: "real \<Rightarrow> real option" where
  "wrap_below chi = (if chi < -180 then wrap_below (round64 (chi + 360)) else Some chi)"

partial_function (option) wrap_above :: "real \<Rightarrow> real option" where
  "wrap_above chi = (if chi \<ge> 180 then wrap_above (round64 (chi - 360)) else Some chi)"

definition wrap_chi :: "real \<Rightarrow> real option" where
  "wrap_chi chi = Option.bind (wrap_below chi) wrap_above"

text \<open>\<^verbatim>\<open>line[0] != '#' and line[0] != '@'\<close>\<close>

definition is_data_line :: "string \<Rightarrow> error + bool" where
  "is_data_line line =
     (case line of [] \<Rightarrow> Inl IndexError | c # _ \<Rightarrow> Inr (c \<noteq> CHR ''#'' \<and> c \<noteq> CHR ''@''))"

text \<open>The body of the loop of lines 101--112; the loop state is the data and the counter \<open>n\<close>.\<close>

definition read_torsion :: "externals \<Rightarrow> config \<Rightarrow> nat \<Rightarrow> string \<Rightarrow> data \<times> nat \<Rightarrow> error + data \<times> nat" where
  "read_torsion ext cfg k line s =
     (case s of (d, n) \<Rightarrow>
        rbind (is_data_line line) (\<lambda>is_data.
          if \<not> is_data then Inr (d, n)
          else rbind (float_token ext (str_split line) 1) (\<lambda>chi.
            case wrap_chi chi of
              None \<Rightarrow> Inl NonTermination
            | Some chi' \<Rightarrow>
                if n < N_max cfg then Inr (d\<lparr>chi_kn := set_kn (chi_kn d) k n chi'\<rparr>, Suc n)
                else Inl IndexError)))"

text \<open>The body of the loop of lines 125--129.\<close>

definition read_energy :: "externals \<Rightarrow> config \<Rightarrow> nat \<Rightarrow> string \<Rightarrow> data \<times> nat \<Rightarrow> error + data \<times> nat" where
  "read_energy ext cfg k line s =
     (case s of (d, n) \<Rightarrow>
        rbind (is_data_line line) (\<lambda>is_data.
          if \<not> is_data then Inr (d, n)
          else let tokens = str_split line in
            rbind (float_token ext tokens 2) (\<lambda>e2.
              rbind (float_token ext tokens 1) (\<lambda>e1.
                if n < N_max cfg
                then Inr (d\<lparr>u_kn := set_kn (u_kn d) k n (beta_k d ! k * (e2 - e1))\<rparr>, Suc n)
                else Inl IndexError))))"

text \<open>
  \<^verbatim>\<open>a[k,indices]\<close>: numpy gathers the entries at the given integer indices of row \<open>k\<close>
  into a new array.
\<close>

definition gather :: "'a list \<Rightarrow> int list \<Rightarrow> error + 'a list" where
  "gather row indices =
     for_each (\<lambda>i acc. rbind (index_int row i) (\<lambda>v. Inr (acc @ [v]))) indices []"

text \<open>
  \<^verbatim>\<open>a[k,0:m] = vals\<close> with \<open>m = len(vals)\<close>: the slice is clipped to the row, and numpy
  refuses an assignment whose two sides differ in length.
\<close>

definition assign_prefix :: "'a list list \<Rightarrow> nat \<Rightarrow> 'a list \<Rightarrow> error + 'a list list" where
  "assign_prefix a k vals =
     (if length vals \<le> length (a ! k)
      then Inr (a[k := vals @ drop (length vals) (a ! k)])
      else Inl ValueError)"

text \<open>
  Lines 134--145: the statistical inefficiency \<open>g\<close> of window \<open>k\<close> and the indices of the
  samples to keep, from the energies when the temperatures differ and from the torsions
  otherwise.
\<close>

definition correlation :: "externals \<Rightarrow> bool \<Rightarrow> nat \<Rightarrow> data \<Rightarrow> error + real \<times> int list" where
  "correlation ext different k d =
     (if different then
        rbind (statisticalInefficiency ext (u_kn d ! k) (Some (take (N_k d ! k) (u_kn d ! k))))
          (\<lambda>g. rbind (subsampleCorrelatedData ext (take (N_k d ! k) (u_kn d ! k)) None)
            (\<lambda>indices. Inr (g, indices)))
      else
        let chi_radians = map (\<lambda>c. c / (180 / pi)) (take (N_k d ! k) (chi_kn d ! k)) in
        rbind (statisticalInefficiency ext (map cos chi_radians) None) (\<lambda>g_cos.
          rbind (statisticalInefficiency ext (map sin chi_radians) None) (\<lambda>g_sin.
            let g = max g_cos g_sin in
            rbind (subsampleCorrelatedData ext chi_radians (Some g))
              (\<lambda>indices. Inr (g, indices)))))"

text \<open>The store into \<open>g_k[k]\<close> and lines 146--149: the kept samples move to the front of the rows.\<close>

definition keep_indices :: "nat \<Rightarrow> real \<Rightarrow> int list \<Rightarrow> data \<Rightarrow> error + data" where
  "keep_indices k g indices d =
     (let d1 = d\<lparr>g_k := (g_k d)[k := g], N_k := (N_k d)[k := length indices]\<rparr> in
      rbind (gather (u_kn d1 ! k) indices) (\<lambda>us.
        rbind (assign_prefix (u_kn d1) k us) (\<lambda>u'.
          let d2 = d1\<lparr>u_kn := u'\<rparr> in
          rbind (gather (chi_kn d2 ! k) indices) (\<lambda>cs.
            rbind (assign_prefix (chi_kn d2) k cs) (\<lambda>c'.
              Inr (d2\<lparr>chi_kn := c'\<rparr>))))))"

definition subsample :: "externals \<Rightarrow> bool \<Rightarrow> nat \<Rightarrow> data \<Rightarrow> error + data" where
  "subsample ext different k d =
     rbind (correlation ext different k d) (\<lambda>(g, indices). keep_indices k g indices d)"

text \<open>
  The body of the loop of line 92. \<open>dihed k\<close> and \<open>energies k\<close> are the lines of
  \<^verbatim>\<open>data/prod<k>_dihed.xvg\<close> and \<^verbatim>\<open>data/prod<k>_energies.xvg\<close>.
\<close>

definition read_window ::
  "externals \<Rightarrow> config \<Rightarrow> (nat \<Rightarrow> string list) \<Rightarrow> (nat \<Rightarrow> string list) \<Rightarrow> bool \<Rightarrow> nat \<Rightarrow> data
     \<Rightarrow> error + data" where
  "read_window ext cfg dihed energies different k d =
     rbind (for_each (read_torsion ext cfg k) (dihed k) (d, 0)) (\<lambda>(d1, n).
       let d2 = d1\<lparr>N_k := (N_k d1)[k := n]\<rparr> in
       rbind
         (if different
          then rbind (for_each (read_energy ext cfg k) (energies k) (d2, 0)) (\<lambda>(d3, n'). Inr d3)
          else Inr d2)
         (subsample ext different k))"

text \<open>Lines 74--149: everything read from disk.\<close>

definition ingest ::
  "externals \<Rightarrow> config \<Rightarrow> string list \<Rightarrow> (nat \<Rightarrow> string list) \<Rightarrow> (nat \<Rightarrow> string list)
     \<Rightarrow> error + data" where
  "ingest ext cfg centers dihed energies =
     rbind (read_centers ext cfg centers (allocate cfg)) (\<lambda>d.
       rbind (DifferentTemperatures d) (\<lambda>different.
         for_each (read_window ext cfg dihed energies different) [0..<K cfg] d))"

subsection \<open>Zero of the energies (lines 151--155)\<close>

text \<open>\<^verbatim>\<open>np.max(N_k)\<close> and \<^verbatim>\<open>u_kn.min()\<close>: numpy refuses an empty array.\<close>

definition N_max_retained :: "data \<Rightarrow> error + nat" where
  "N_max_retained d = (if N_k d = [] then Inl ValueError else Inr (Max (set (N_k d))))"

definition array_min :: "real list list \<Rightarrow> error + real" where
  "array_min a = (if concat a = [] then Inl ValueError else Inr (Min (set (concat a))))"

text \<open>\<^verbatim>\<open>u_kn -= u_kn.min()\<close>: each difference is a float64 subtraction, so it is rounded.\<close>

definition rezero :: "data \<Rightarrow> error + data" where
  "rezero d =
     rbind (array_min (u_kn d))
       (\<lambda>m. Inr (d\<lparr>u_kn := map (map (\<lambda>u. round64 (u - m))) (u_kn d)\<rparr>))"

subsection \<open>Torsion bins (lines 157--163)\<close>

text \<open>
  \<^verbatim>\<open>np.linspace(start, stop, num)\<close>, as numpy computes it: \<open>num\<close> multiples of the step
  \<open>(stop - start) / (num - 1)\<close> added to \<open>start\<close>, and the last entry set to \<open>stop\<close>.
\<close>

definition linspace :: "real \<Rightarrow> real \<Rightarrow> nat \<Rightarrow> real list" where
  "linspace start stop num =
     (if num \<le> 1 then replicate num start
      else (map (\<lambda>i. real i * ((stop - start) / real (num - 1)) + start) [0..<num])
             [num - 1 := stop])"

definition bin_edges :: "config \<Rightarrow> real list" where
  "bin_edges cfg = linspace (chi_min cfg) (chi_max cfg) (nbins cfg + 1)"

definition bin_center_i :: "config \<Rightarrow> real list" where
  "bin_center_i cfg =
     fold (\<lambda>i b. b[i := 0.5 * (bin_edges cfg ! i + bin_edges cfg ! (i + 1))])
       [0..<nbins cfg] (replicate (nbins cfg) 0)"

subsection \<open>Reduced energies in all umbrellas (lines 152, 176--187)\<close>

text \<open>The body of the loop of lines 182--184, which overwrites \<open>dchi[l]\<close> in place.\<close>

definition wrap_dchi :: "nat \<Rightarrow> real list \<Rightarrow> real list" where
  "wrap_dchi l dchi = (if \<bar>dchi ! l\<bar> > 180 then dchi[l := 360 - \<bar>dchi ! l\<bar>] else dchi)"

text \<open>Lines 181--184: \<^verbatim>\<open>dchi = chi_kn[k,n] - chi0_k\<close>, then the loop over \<open>l\<close>.\<close>

definition minimum_image :: "config \<Rightarrow> data \<Rightarrow> nat \<Rightarrow> nat \<Rightarrow> real list" where
  "minimum_image cfg d k n =
     fold wrap_dchi [0..<K cfg] (map (\<lambda>c. chi_kn d ! k ! n - c) (chi0_k d))"

text \<open>\<^verbatim>\<open>u_kln[k,:,n] = vec\<close>\<close>

definition set_kln :: "real list list list \<Rightarrow> nat \<Rightarrow> nat \<Rightarrow> real list \<Rightarrow> real list list list" where
  "set_kln u k n vec = u[k := map2 (\<lambda>row v. row[n := v]) (u ! k) vec]"

text \<open>Line 187, for one sample \<open>n\<close> of window \<open>k\<close>.\<close>

definition energy_step :: "config \<Rightarrow> data \<Rightarrow> nat \<Rightarrow> nat \<Rightarrow> real list list list \<Rightarrow> real list list list" where
  "energy_step cfg d k n u =
     set_kln u k n
       (map2 (\<lambda>Kl dl. u_kn d ! k ! n + beta_k d ! k * (Kl / 2) * dl\<^sup>2)
          (K_k d) (minimum_image cfg d k n))"

definition u_kln :: "config \<Rightarrow> data \<Rightarrow> error + real list list list" where
  "u_kln cfg d =
     rbind (N_max_retained d) (\<lambda>N.
       Inr (fold (\<lambda>k u. fold (energy_step cfg d k) [0..<N_k d ! k] u) [0..<K cfg]
              (replicate (K cfg) (replicate (K cfg) (replicate N 0)))))"

subsection \<open>The bias potentials (lines 193--199, 249)\<close>

text \<open>
  \<^verbatim>\<open>bias_potential(x,k)\<close> for a scalar \<open>x\<close>. The comparison \<open>i\<close> is a numpy boolean, which
  the arithmetic of line 198 reads as 0 or 1.
\<close>

definition bias_potential :: "data \<Rightarrow> real \<Rightarrow> nat \<Rightarrow> error + real" where
  "bias_potential d x k =
     rbind (index (chi0_k d) k) (\<lambda>c.
       let dchi = x - c;
           i = (\<bar>dchi\<bar> > 180);
           dchi = of_bool i * (360 - \<bar>dchi\<bar>) + (1 - of_bool i) * dchi
       in rbind (index (beta_k d) k) (\<lambda>b.
            rbind (index (K_k d) k) (\<lambda>s. Inr (b * (s / 2) * dchi\<^sup>2))))"

text \<open>
  A value of \<^verbatim>\<open>lambda x, klocal=k: bias_potential(x,klocal)\<close>. Python evaluates the default
  of \<open>klocal\<close> when the lambda expression is evaluated and stores it in the function
  object; the body reads the parameter \<open>klocal\<close>, not the variable \<open>k\<close>.
\<close>

datatype closure = Lambda (klocal: nat)

text \<open>Calling the function object with the one argument \<open>x\<close>.\<close>

definition call :: "data \<Rightarrow> closure \<Rightarrow> real \<Rightarrow> error + real" where
  "call d f x = bias_potential d x (klocal f)"

text \<open>Line 249: the list comprehension over \<^verbatim>\<open>range(K)\<close>.\<close>

definition fkbias :: "config \<Rightarrow> closure list" where
  "fkbias cfg = map (\<lambda>k. Lambda k) [0..<K cfg]"

subsection \<open>The PMF object (line 191) and what is handed to it\<close>

text \<open>
  The values stored in the parameter dictionaries, and the dictionaries themselves.
  \<open>POptions disp tol\<close> is the dictionary \<^verbatim>\<open>optimize_options\<close> of line 15.
\<close>

datatype pval =
  PStr string | PInt int | PNum real | PVec "real list" | PGrid "real list list"
  | PClosures "closure list" | POptions bool real

type_synonym dict = "string \<rightharpoonup> pval"

text \<open>A call of \<^verbatim>\<open>generatePMF\<close>, by its \<^verbatim>\<open>pmf_type\<close> and parameters, or of \<^verbatim>\<open>SampleDistribution\<close>.\<close>

datatype request = Histogram dict | Kde dict | Spline dict | Sample dict

text \<open>The dictionary \<^verbatim>\<open>getPMF\<close> returns: \<open>f_i\<close> is an array, \<open>df_i\<close> an array or \<^verbatim>\<open>None\<close>.\<close>

record pmf_result =
  f_i :: "real list"
  df_i :: "real list option"

record mc_parameters =
  niterations :: nat
  fraction_change :: real
  sample_every :: nat
  prior :: "real list \<Rightarrow> real"
  print_every :: nat

text \<open>
  The part of \<^verbatim>\<open>pymbar\<close> the script calls; \<open>'pmf\<close> is the state of the \<^verbatim>\<open>PMF\<close> object,
  which \<^verbatim>\<open>generatePMF\<close> changes. Each function may raise.
\<close>

record 'pmf library =
  PMF :: "real list list list \<Rightarrow> nat list \<Rightarrow> error + 'pmf"
  kn_to_n :: "real list list \<Rightarrow> nat list \<Rightarrow> error + real list"
  generatePMF :: "'pmf \<Rightarrow> real list list \<Rightarrow> real list \<Rightarrow> request \<Rightarrow> nat \<Rightarrow> error + 'pmf"
  getPMF :: "'pmf \<Rightarrow> real list \<Rightarrow> string \<Rightarrow> error + pmf_result"
  SampleDistribution :: "'pmf \<Rightarrow> real list \<Rightarrow> dict \<Rightarrow> mc_parameters \<Rightarrow> error + unit"

text \<open>
  The variables the method loop reads and writes. \<open>f_i_kde\<close> is \<open>None\<close> for Python's
  \<^verbatim>\<open>None\<close>; \<open>spline_parameters\<close> is \<open>None\<close> while the name is unbound. \<open>calls\<close> records, in
  order, the calls of \<^verbatim>\<open>generatePMF\<close> and \<^verbatim>\<open>SampleDistribution\<close> made so far.
\<close>

record 'pmf session =
  pmf :: 'pmf
  f_i_kde :: "real list option"
  spline_parameters :: "dict option"
  calls :: "request list"

text \<open>
  A statement of the loop either raises, leaving the variables as they are at that
  moment, or goes on.
\<close>

definition and_then ::
  "error option \<times> 's \<Rightarrow> ('s \<Rightarrow> error option \<times> 's) \<Rightarrow> error option \<times> 's" where
  "and_then r f = (case r of (Some e, s) \<Rightarrow> (Some e, s) | (None, s) \<Rightarrow> f s)"

definition colors :: "string \<rightharpoonup> string" where
  "colors = map_of
     [(''histogram'', ''k:''), (''kde'', ''k-''),
      (''kl-1'', ''g-''), (''kl-3'', ''m-''), (''kl-5'', ''c-''),
      (''sumkl-1'', ''g--''), (''sumkl-3'', ''m--''), (''sumkl-5'', ''c--''),
      (''simple-1'', ''g-.''), (''simple-3'', ''m-.''), (''simple-5'', ''c-.''),
      (''weighted-1'', ''g:''), (''weighted-3'', ''m:''), (''weighted-5'', ''c:'')]"

definition optimize_options :: pval where
  "optimize_options = POptions True (1 / 10 ^ 3)"

definition xplot :: "config \<Rightarrow> real list" where
  "xplot cfg = linspace (chi_min cfg) (chi_max cfg) (nplot cfg)"

definition xstart :: "config \<Rightarrow> real list" where
  "xstart cfg = linspace (chi_min cfg) (chi_max cfg) (nsplines cfg * 2)"

subsection \<open>The method loop (lines 207--278)\<close>

text \<open>\<^verbatim>\<open>pmf.generatePMF(u_kn, chi_n, pmf_type = ..., ..., nbootstraps=nbootstraps)\<close>\<close>

definition generate ::
  "'pmf library \<Rightarrow> config \<Rightarrow> data \<Rightarrow> real list \<Rightarrow> request \<Rightarrow> 'pmf session
     \<Rightarrow> error option \<times> 'pmf session" where
  "generate lib cfg d chi_n req s =
     (let s1 = s\<lparr>calls := calls s @ [req]\<rparr> in
      case generatePMF lib (pmf s) (u_kn d) chi_n req (nbootstraps cfg) of
        Inl e \<Rightarrow> (Some e, s1)
      | Inr p \<Rightarrow> (None, s1\<lparr>pmf := p\<rparr>))"

text \<open>Lines 210--214.\<close>

definition histogram_branch ::
  "'pmf library \<Rightarrow> config \<Rightarrow> data \<Rightarrow> real list \<Rightarrow> 'pmf session \<Rightarrow> error option \<times> 'pmf session" where
  "histogram_branch lib cfg d chi_n s =
     (let histogram_parameters = [''bin_edges'' \<mapsto> PGrid [bin_edges cfg]]
      in generate lib cfg d chi_n (Histogram histogram_parameters) s)"

text \<open>Lines 216--224. The division by \<open>nbins\<close> is one of Python floats.\<close>

definition kde_parameters :: "config \<Rightarrow> dict" where
  "kde_parameters cfg =
     [''bandwidth'' \<mapsto> PNum (0.5 * ((chi_max cfg - chi_min cfg) / real (nbins cfg)))]"

definition kde_branch ::
  "'pmf library \<Rightarrow> config \<Rightarrow> data \<Rightarrow> real list \<Rightarrow> 'pmf session \<Rightarrow> error option \<times> 'pmf session" where
  "kde_branch lib cfg d chi_n s =
     (if nbins cfg = 0 then (Some ZeroDivisionError, s)
      else and_then (generate lib cfg d chi_n (Kde (kde_parameters cfg)) s) (\<lambda>s1.
        case getPMF lib (pmf s1) (xstart cfg) ''from-lowest'' of
          Inl e \<Rightarrow> (Some e, s1)
        | Inr results \<Rightarrow> (None, s1\<lparr>f_i_kde := Some (f_i results)\<rparr>)))"

text \<open>The test of line 226.\<close>

definition is_spline_method :: "string \<Rightarrow> bool" where
  "is_spline_method method =
     (take 2 method = ''kl'' \<or> take 5 method = ''sumkl'' \<or> take 8 method = ''weighted''
      \<or> take 6 method = ''simple'')"

text \<open>
  \<^verbatim>\<open>int(c)\<close> for a string of one character. (Python also reads the decimal digits of
  other scripts, which the 8-bit characters of the model do not have.)
\<close>

definition int_of_char :: "char \<Rightarrow> error + int" where
  "int_of_char c =
     (let n = (of_char c :: nat)
      in if 48 \<le> n \<and> n \<le> 57 then Inr (int n - 48) else Inl ValueError)"

text \<open>\<^verbatim>\<open>int(method[-1])\<close>\<close>

definition kdegree_of :: "string \<Rightarrow> error + int" where
  "kdegree_of method = (if method = [] then Inl IndexError else int_of_char (last method))"

text \<open>Lines 227--247 and 249: the dictionary as it stands when line 251 is reached.\<close>

definition spline_parameters_251 :: "config \<Rightarrow> string \<Rightarrow> real list option \<Rightarrow> dict" where
  "spline_parameters_251 cfg method kde =
     (let sp = Map.empty;
          sp = (if take 2 method = ''kl'' then sp(''spline_weights'' \<mapsto> PStr ''kldivergence'') else sp);
          sp = (if take 5 method = ''sumkl'' then sp(''spline_weights'' \<mapsto> PStr ''sumkldivergence'') else sp);
          sp = (if take 8 method = ''weighted'' then sp(''spline_weights'' \<mapsto> PStr ''weightedsum'') else sp);
          sp = (if take 6 method = ''simple'' then sp(''spline_weights'' \<mapsto> PStr ''simplesum'') else sp);
          sp = sp(''nspline'' \<mapsto> PInt (int (nsplines cfg)));
          sp = sp(''spline_initialize'' \<mapsto> PStr ''explicit'');
          sp = sp(''xinit'' \<mapsto> PVec (xstart cfg));
          sp = (case kde of
                  Some f \<Rightarrow> sp(''yinit'' \<mapsto> PVec f)
                | None \<Rightarrow> sp(''yinit'' \<mapsto> PVec (replicate (length (xstart cfg)) 0)));
          sp = sp(''xrange'' \<mapsto> PVec [chi_min cfg, chi_max cfg]);
          sp = sp(''fkbias'' \<mapsto> PClosures (fkbias cfg))
      in sp)"

text \<open>Lines 226--254.\<close>

definition spline_branch ::
  "'pmf library \<Rightarrow> config \<Rightarrow> data \<Rightarrow> real list \<Rightarrow> string \<Rightarrow> 'pmf session
     \<Rightarrow> error option \<times> 'pmf session" where
  "spline_branch lib cfg d chi_n method s =
     (let sp = spline_parameters_251 cfg method (f_i_kde s)
      in case kdegree_of method of
           Inl e \<Rightarrow> (Some e, s\<lparr>spline_parameters := Some sp\<rparr>)
         | Inr kdegree \<Rightarrow>
             let sp = sp(''kdegree'' \<mapsto> PInt kdegree);
                 sp = sp(''optimization_algorithm'' \<mapsto> PStr (optimization_algorithm cfg));
                 sp = sp(''optimize_options'' \<mapsto> optimize_options)
             in generate lib cfg d chi_n (Spline sp) (s\<lparr>spline_parameters := Some sp\<rparr>))"

text \<open>
  Lines 256--278: the table and the plot of the method. The table reads \<^verbatim>\<open>results['f_i'][i]\<close>
  (and \<^verbatim>\<open>results['df_i'][i]\<close> when there is one) for every bin; the plot looks the
  method up in \<^verbatim>\<open>colors\<close>.
\<close>

definition report :: "'pmf library \<Rightarrow> config \<Rightarrow> string \<Rightarrow> 'pmf session \<Rightarrow> error option \<times> 'pmf session" where
  "report lib cfg method s =
     (case getPMF lib (pmf s) (bin_center_i cfg) ''from-lowest'' of
        Inl e \<Rightarrow> (Some e, s)
      | Inr results \<Rightarrow>
          if length (f_i results) < nbins cfg
             \<or> (case df_i results of Some df \<Rightarrow> length df < nbins cfg | None \<Rightarrow> False)
          then (Some IndexError, s)
          else (case getPMF lib (pmf s) (xplot cfg) ''from-lowest'' of
                  Inl e \<Rightarrow> (Some e, s)
                | Inr results \<Rightarrow>
                    (case colors method of None \<Rightarrow> (Some KeyError, s) | Some fmt \<Rightarrow> (None, s))))"

text \<open>The body of the loop of line 207: three \<^verbatim>\<open>if\<close> statements in a row, then the report.\<close>

definition method_body ::
  "'pmf library \<Rightarrow> config \<Rightarrow> data \<Rightarrow> real list \<Rightarrow> string \<Rightarrow> 'pmf session
     \<Rightarrow> error option \<times> 'pmf session" where
  "method_body lib cfg d chi_n method s =
     and_then (if method = ''histogram'' then histogram_branch lib cfg d chi_n s else (None, s))
       (\<lambda>s. and_then (if method = ''kde'' then kde_branch lib cfg d chi_n s else (None, s))
         (\<lambda>s. and_then
            (if is_spline_method method then spline_branch lib cfg d chi_n method s else (None, s))
            (report lib cfg method)))"

fun method_loop ::
  "'pmf library \<Rightarrow> config \<Rightarrow> data \<Rightarrow> real list \<Rightarrow> string list \<Rightarrow> 'pmf session
     \<Rightarrow> error option \<times> 'pmf session" where
  "method_loop lib cfg d chi_n [] s = (None, s)"
| "method_loop lib cfg d chi_n (method # rest) s =
     (case method_body lib cfg d chi_n method s of
        (Some e, s') \<Rightarrow> (Some e, s')
      | (None, s') \<Rightarrow> method_loop lib cfg d chi_n rest s')"

subsection \<open>The posterior sampler (lines 288--293)\<close>

definition mc_parameters :: mc_parameters where
  "mc_parameters = \<lparr>niterations = 10000, fraction_change = 2 / 100, sample_every = 50,
     prior = (\<lambda>x. 1), print_every = 100\<rparr>"


subsection \<open>The script from line 151 to line 293\<close>


section \<open>Notions used to state the properties\<close>

text \<open>
  The shapes of the arrays. A numpy array carries its shape; the lists of the model do
  not, so the shapes the script allocates (\<open>K\<close> windows, rows of \<open>N_max\<close> entries, counts
  within the rows) are stated here.
\<close>

definition well_formed :: "config \<Rightarrow> data \<Rightarrow> bool" where
  "well_formed cfg d =
     (length (N_k d) = K cfg \<and> length (K_k d) = K cfg \<and> length (chi0_k d) = K cfg
      \<and> length (T_k d) = K cfg \<and> length (chi_kn d) = K cfg \<and> length (u_kn d) = K cfg
      \<and> (\<forall>row \<in> set (chi_kn d). length row = N_max cfg)
      \<and> (\<forall>row \<in> set (u_kn d). length row = N_max cfg)
      \<and> (\<forall>n \<in> set (N_k d). n \<le> N_max cfg))"

definition shape3 :: "nat \<Rightarrow> nat \<Rightarrow> real list list list \<Rightarrow> bool" where
  "shape3 Kw N u =
     (length u = Kw \<and> (\<forall>k<Kw. length (u ! k) = Kw \<and> (\<forall>l<Kw. length (u ! k ! l) = N)))"

text \<open>
  The shortest-path distance on the periodic domain, in the words of the specification:
  a difference whose absolute value exceeds the half period 180 is replaced by the
  period 360 minus that absolute value.
\<close>

definition shortest_path :: "real \<Rightarrow> real" where
  "shortest_path dchi = (if \<bar>dchi\<bar> > 180 then 360 - \<bar>dchi\<bar> else dchi)"

text \<open>The entry that line 187 computes for sample \<open>n\<close> of window \<open>k\<close> under the bias of window \<open>l\<close>.\<close>

definition energy :: "data \<Rightarrow> nat \<Rightarrow> nat \<Rightarrow> nat \<Rightarrow> real" where
  "energy d k l n = u_kn d ! k ! n
      + beta_k d ! k * (K_k d ! l / 2) * (shortest_path (chi_kn d ! k ! n - chi0_k d ! l))\<^sup>2"

text \<open>
  A small data set for concrete checks: three windows of at most two samples, the
  second window at another temperature, the first and the third with the same bias.
\<close>

definition example_config :: config where
  "example_config = \<lparr>temperature = 300, K = 3, N_max = 2, chi_min = -180, chi_max = 180,
     nbins = 2, nsplines = 1, nplot = 2, nbootstraps = 0,
     optimization_algorithm = ''Custom-NR'', methods = [''kde'', ''simple-3'']\<rparr>"

definition example_data :: data where
  "example_data = \<lparr>N_k = [2, 1, 2], K_k = [2, 4, 2], chi0_k = [-170, 170, -170],
     T_k = [300, 600, 300], chi_kn = [[175, -160], [10, 0], [20, 30]],
     u_kn = [[1, 2], [3, 0], [5, 8]], g_k = [1, 1, 1]\<rparr>"



text \<open>The retained energies: the first \<open>N_k[k]\<close> entries of each row of \<open>u_kn\<close>.\<close>

definition retained :: "data \<Rightarrow> real list" where
  "retained d = concat (map2 take (N_k d) (u_kn d))"

text \<open>
  A small run for concrete checks of the ingestion: two windows at 300 K and 600 K with
  room for two samples each, files of two data lines per window, and a subsampling that
  keeps the first sample only. \<open>small_data\<close> is what the ingestion makes of it.
\<close>

definition small_config :: config where
  "small_config = \<lparr>temperature = 300, K = 2, N_max = 2, chi_min = -180, chi_max = 180,
     nbins = 2, nsplines = 1, nplot = 2, nbootstraps = 0,
     optimization_algorithm = ''Custom-NR'', methods = [''kde'', ''simple-3'']\<rparr>"

definition small_externals :: externals where
  "small_externals = \<lparr>
     pyfloat = map_of [(''0'', 0), (''1'', 1), (''2'', 2), (''3'', 3), (''4'', 4), (''5'', 5),
       (''10'', 10), (''90'', 90), (''100'', 100), (''190'', 190), (''-200'', -200),
       (''300'', 300), (''540'', 540), (''600'', 600), (''1e19'', 10 ^ 19)],
     statisticalInefficiency = (\<lambda>A B. Inr 1),
     subsampleCorrelatedData = (\<lambda>A g. Inr [0])\<rparr>"

definition small_centers :: "string list" where
  "small_centers = map (\<lambda>l. l @ [CHR 0x0A]) [''0 100 300'', ''90 100 600'']"

definition small_dihed :: "nat \<Rightarrow> string list" where
  "small_dihed k = map (\<lambda>l. l @ [CHR 0x0A])
     (if k = 0 then [''# torsions'', ''@ legend'', ''0 190'', ''1 -200'']
      else [''0 10'', ''1 540''])"

definition small_energies :: "nat \<Rightarrow> string list" where
  "small_energies k = map (\<lambda>l. l @ [CHR 0x0A])
     (if k = 0 then [''0 1 3'', ''1 1 2''] else [''0 0 5'', ''1 0 4''])"

definition small_data :: data where
  "small_data = \<lparr>N_k = [1, 1], K_k = [100 * (pi / 180)\<^sup>2, 100 * (pi / 180)\<^sup>2],
     chi0_k = [0, 90], T_k = [300, 600], chi_kn = [[-170, 160], [10, -180]],
     u_kn = [[2 / (kB * 300), 1 / (kB * 300)], [5 / (kB * 600), 4 / (kB * 600)]],
     g_k = [1, 1]\<rparr>"

text \<open>The decimal digits among the characters of the model.\<close>

definition is_decimal_digit :: "char \<Rightarrow> bool" where
  "is_decimal_digit c = (48 \<le> (of_char c :: nat) \<and> (of_char c :: nat) \<le> 57)"

text \<open>
  A KDE profile at the points \<open>xstart\<close>: what \<^verbatim>\<open>getPMF(xstart, uncertainties = 'from-lowest')\<close>
  returns as \<open>f_i\<close> on the \<^verbatim>\<open>PMF\<close> object as a KDE fit of line 220 left it.
\<close>

definition kde_profile :: "'pmf library \<Rightarrow> config \<Rightarrow> data \<Rightarrow> real list \<Rightarrow> real list \<Rightarrow> bool" where
  "kde_profile lib cfg d chi_n f =
     (\<exists>p0 p r. generatePMF lib p0 (u_kn d) chi_n (Kde (kde_parameters cfg)) (nbootstraps cfg) = Inr p
        \<and> getPMF lib p (xstart cfg) ''from-lowest'' = Inr r \<and> f = f_i r)"


text \<open>
  A library for concrete checks: its \<^verbatim>\<open>PMF\<close> object counts the fits made, and \<^verbatim>\<open>getPMF\<close>
  returns that count at every point. \<open>start\<close> is the state before the method loop and
  \<open>after_kde\<close> the state after the method \<^verbatim>\<open>'kde'\<close> has run from it on the small data.
\<close>

definition example_library :: "nat library" where
  "example_library = \<lparr>
     PMF = (\<lambda>u N. Inr 0),
     kn_to_n = (\<lambda>a N. Inr (concat (map2 take N a))),
     generatePMF = (\<lambda>p u chi req nb. Inr (Suc p)),
     getPMF = (\<lambda>p x unc. Inr \<lparr>f_i = map (\<lambda>v. real p) x, df_i = None\<rparr>),
     SampleDistribution = (\<lambda>p chi sp mc. Inr ())\<rparr>"

definition start :: "nat session" where
  "start = \<lparr>pmf = 0, f_i_kde = None, spline_parameters = None, calls = []\<rparr>"

definition after_kde :: "nat session" where
  "after_kde = \<lparr>pmf = 1, f_i_kde = Some [1, 1], spline_parameters = None,
     calls = [Kde (kde_parameters small_config)]\<rparr>"

text \<open>
  One window of three energies, for a check of the rounding on line 155: the minimum is
  -1, and \<open>1 / 2 ^ 53 + 1\<close> lies halfway between two float64 values.
\<close>

definition tie_data :: data where
  "tie_data = \<lparr>N_k = [3], K_k = [0], chi0_k = [0], T_k = [300], chi_kn = [[0, 0, 0]],
     u_kn = [[1, 1 / 2 ^ 53, -1]], g_k = [1]\<rparr>"

section \<open>Properties\<close>

subsection \<open>Rounding to float64\<close>


lemma round_even_of_int: "round_even (of_int n) = n"
  by (simp add: round_even_def)


lemma round_even_ge: "of_int n \<le> q \<Longrightarrow> n \<le> round_even q"
  unfolding round_even_def Let_def by (auto simp: le_floor_iff; linarith)

lemma ulp_pos: "0 < ulp x"
  by (simp add: ulp_def)


lemma floor_log2_le:
  assumes "x \<noteq> 0" and "\<bar>x\<bar> < 2 ^ n"
  shows "\<lfloor>log 2 \<bar>x\<bar>\<rfloor> \<le> int n - 1"
proof -
  have "log 2 \<bar>x\<bar> < log 2 (2 ^ n)" using assms by (simp del: log_pow_cancel)
  hence "log 2 \<bar>x\<bar> < real n" by simp
  hence "\<lfloor>log 2 \<bar>x\<bar>\<rfloor> < int n" by (simp add: floor_less_iff)
  thus ?thesis by simp
qed


lemma round64_nonneg: "0 \<le> x \<Longrightarrow> 0 \<le> round64 x"
  using round_even_ge[of 0 "x / ulp x"] ulp_pos[of x] by (simp add: round64_def)






lemma ulp_eq:
  assumes "2 powr of_int e \<le> \<bar>x\<bar>" and "\<bar>x\<bar> < 2 powr (of_int e + 1)" and "-1022 \<le> e"
  shows "ulp x = 2 powi (e - 52)"
proof -
  have "0 < \<bar>x\<bar>" using assms(1) by (smt (verit) powr_gt_zero)
  hence "\<lfloor>log 2 \<bar>x\<bar>\<rfloor> = e" using assms(1,2) by (simp add: floor_log_eq_powr_iff)
  thus ?thesis using assms(3) by (simp add: ulp_def)
qed

lemma round64_eval:
  assumes "2 powr of_int e \<le> \<bar>x\<bar>" and "\<bar>x\<bar> < 2 powr (of_int e + 1)" and "-1022 \<le> e"
    and "round_even (x / 2 powi (e - 52)) = n"
  shows "round64 x = of_int n * 2 powi (e - 52)"
proof -
  have "0 < \<bar>x\<bar>" using assms(1) by (smt (verit) powr_gt_zero)
  hence "x \<noteq> 0" by simp
  thus ?thesis using ulp_eq[OF assms(1,2,3)] assms(4) by (simp add: round64_def)
qed



lemma round_even_tie: "round_even (9007199254740993 / 2) = 4503599627370496"
  by (simp add: round_even_def Let_def)

lemma round64_tie: "round64 (1 + 1 / 2 ^ 53) = 1"
  using round64_eval[of 0 "1 + 1 / 2 ^ 53" 4503599627370496] round_even_tie
  by (simp add: power_int_minus_divide)

lemma round64_of_int:
  assumes "\<bar>k\<bar> < 2 ^ 53"
  shows "round64 (of_int k) = of_int k"
proof (cases "k = 0")
  case True
  thus ?thesis by (simp add: round64_def)
next
  case False
  let ?x = "of_int k :: real"
  have "(of_int \<bar>k\<bar> :: real) < of_int (2 ^ 53)" using assms by (simp only: of_int_less_iff)
  hence x: "?x \<noteq> 0" "\<bar>?x\<bar> < 2 ^ 53" using False by simp_all
  have "(of_int 1 :: real) \<le> of_int \<bar>k\<bar>" using False by (simp only: of_int_le_iff)
  hence "1 \<le> \<bar>?x\<bar>" by simp
  hence "0 \<le> log 2 \<bar>?x\<bar>" by simp
  hence lo: "0 \<le> \<lfloor>log 2 \<bar>?x\<bar>\<rfloor>" by simp
  have hi: "\<lfloor>log 2 \<bar>?x\<bar>\<rfloor> \<le> 52" using floor_log2_le[OF x] by simp
  define E where "E = max \<lfloor>log 2 \<bar>?x\<bar>\<rfloor> (-1022) - 52"
  have E: "E \<le> 0" using hi by (simp add: E_def)
  have u: "ulp ?x = 2 powi E" by (simp add: ulp_def E_def)
  have "(2::real) powi E * 2 powi (- E) = 1" by (simp add: power_int_add[symmetric])
  moreover have p: "(2::real) powi (- E) = of_int (2 ^ nat (- E))"
    using E by (simp add: power_int_def)
  ultimately have q: "?x / 2 powi E = of_int (k * 2 ^ nat (- E))"
    by (simp add: field_simps mult.commute)
  have "round_even (?x / 2 powi E) = k * 2 ^ nat (- E)"
    unfolding q by (rule round_even_of_int)
  hence "of_int (round_even (?x / ulp ?x)) * ulp ?x = ?x / 2 powi E * 2 powi E"
    unfolding u q by simp
  thus ?thesis using x(1) by (simp add: round64_def)
qed

subsection \<open>The bin grid\<close>

lemma length_linspace: "length (linspace a b n) = n"
  by (simp add: linspace_def)

lemma linspace_nth:
  assumes "1 < n" "i < n"
  shows "linspace a b n ! i = a + real i * ((b - a) / real (n - 1))"
proof (cases "i = n - 1")
  case True
  have "real (n - 1) \<noteq> 0" using assms by simp
  hence "a + real (n - 1) * ((b - a) / real (n - 1)) = b" by simp
  thus ?thesis using assms True by (simp add: linspace_def)
next
  case False
  thus ?thesis using assms by (simp add: linspace_def add.commute)
qed

text \<open>A loop that writes \<open>f i\<close> to position \<open>i\<close>, for \<open>i\<close> below \<open>m\<close>.\<close>

lemma fold_update_nth:
  "m \<le> length b \<Longrightarrow> j < length b \<Longrightarrow>
     length (fold (\<lambda>i b. b[i := f i]) [0..<m] b) = length b \<and>
     fold (\<lambda>i b. b[i := f i]) [0..<m] b ! j = (if j < m then f j else b ! j)"
proof (induction m)
  case 0
  show ?case by simp
next
  case (Suc m)
  thus ?case by (auto simp: nth_list_update less_Suc_eq)
qed

lemma length_bin_center_i: "length (bin_center_i cfg) = nbins cfg"
proof (cases "nbins cfg")
  case 0
  thus ?thesis by (simp add: bin_center_i_def)
next
  case (Suc m)
  hence "0 < length (replicate (nbins cfg) (0::real))" by simp
  from fold_update_nth[OF _ this, of "nbins cfg"] show ?thesis
    by (simp add: bin_center_i_def)
qed

lemma bin_center_i_nth:
  "i < nbins cfg \<Longrightarrow> bin_center_i cfg ! i = 0.5 * (bin_edges cfg ! i + bin_edges cfg ! (i + 1))"
  unfolding bin_center_i_def
  using fold_update_nth[where m = "nbins cfg" and b = "replicate (nbins cfg) 0" and j = i
      and f = "\<lambda>i. 0.5 * (bin_edges cfg ! i + bin_edges cfg ! (i + 1))"]
  by simp

text \<open>
  Claim C7. With at least one bin and \<open>chi_min < chi_max\<close> (the script has 40 bins on
  \<open>[-180, 180]\<close>), the grid has \<open>nbins + 1\<close> edges, the first \<open>chi_min\<close> and the last
  \<open>chi_max\<close>; every cell has the width \<open>(chi_max - chi_min) / nbins\<close>, so the edges increase
  strictly; and each of the \<open>nbins\<close> centers is the midpoint of its cell's two edges.
\<close>

theorem bin_grid:
  assumes "0 < nbins cfg" and "chi_min cfg < chi_max cfg"
  shows "length (bin_edges cfg) = nbins cfg + 1
    \<and> bin_edges cfg ! 0 = chi_min cfg
    \<and> bin_edges cfg ! nbins cfg = chi_max cfg
    \<and> (\<forall>i<nbins cfg. bin_edges cfg ! (i + 1) - bin_edges cfg ! i
          = (chi_max cfg - chi_min cfg) / real (nbins cfg))
    \<and> (\<forall>i<nbins cfg. bin_edges cfg ! i < bin_edges cfg ! (i + 1))
    \<and> length (bin_center_i cfg) = nbins cfg
    \<and> (\<forall>i<nbins cfg. bin_center_i cfg ! i = 0.5 * (bin_edges cfg ! i + bin_edges cfg ! (i + 1)))"
proof -
  let ?w = "(chi_max cfg - chi_min cfg) / real (nbins cfg)"
  have nth: "bin_edges cfg ! i = chi_min cfg + real i * ?w" if "i \<le> nbins cfg" for i
    using linspace_nth[of "nbins cfg + 1" i "chi_min cfg" "chi_max cfg"] assms(1) that
    by (simp add: bin_edges_def)
  have w: "0 < ?w" using assms by simp
  have len: "length (bin_edges cfg) = nbins cfg + 1"
    by (simp add: bin_edges_def length_linspace)
  have first: "bin_edges cfg ! 0 = chi_min cfg" using nth[of 0] by simp
  have lst: "bin_edges cfg ! nbins cfg = chi_max cfg"
    using nth[of "nbins cfg"] assms(1) by simp
  have width: "bin_edges cfg ! (i + 1) - bin_edges cfg ! i = ?w" if "i < nbins cfg" for i
  proof -
    have "bin_edges cfg ! (i + 1) - bin_edges cfg ! i = (real (i + 1) - real i) * ?w"
      using nth[of i] nth[of "i + 1"] that by (simp only: left_diff_distrib)
    thus ?thesis by simp
  qed
  have incr: "bin_edges cfg ! i < bin_edges cfg ! (i + 1)" if "i < nbins cfg" for i
    using width[OF that] w by linarith
  show ?thesis
    using len first lst width incr length_bin_center_i bin_center_i_nth by blast
qed

text \<open>The grid of the script: 41 edges from -180 to 180, cells 9 degrees wide.\<close>

theorem bin_grid_witness:
  "0 < nbins script_config \<and> chi_min script_config < chi_max script_config
   \<and> length (bin_edges script_config) = 41
   \<and> bin_edges script_config ! 0 = -180
   \<and> bin_edges script_config ! 40 = 180
   \<and> bin_edges script_config ! 1 - bin_edges script_config ! 0 = 9
   \<and> bin_edges script_config ! 39 < bin_edges script_config ! 40
   \<and> length (bin_center_i script_config) = 40
   \<and> bin_center_i script_config ! 0 = 0.5 * (bin_edges script_config ! 0 + bin_edges script_config ! 1)"
proof -
  have h: "0 < nbins script_config" "chi_min script_config < chi_max script_config"
    by (simp_all add: script_config_def)
  have n: "nbins script_config = 40" "chi_min script_config = -180" "chi_max script_config = 180"
    by (simp_all add: script_config_def)
  note g = bin_grid[OF h, unfolded n]
  from g have w: "\<forall>i<40. bin_edges script_config ! (i + 1) - bin_edges script_config ! i
      = (180 - (-180)) / real 40" by blast
  from g have s: "\<forall>i<40. bin_edges script_config ! i < bin_edges script_config ! (i + 1)"
    by blast
  from g have c: "\<forall>i<40. bin_center_i script_config ! i
      = 0.5 * (bin_edges script_config ! i + bin_edges script_config ! (i + 1))" by blast
  show ?thesis
    using h g w[rule_format, of 0] s[rule_format, of 39] c[rule_format, of 0] by simp
qed

subsection \<open>The bias functions handed to the spline fit\<close>

text \<open>
  Claim C6. The list \<open>fkbias\<close> has one function per window, and the function at position
  \<open>k\<close>, called with any \<open>x\<close>, returns what \<open>bias_potential(x, k)\<close> returns: each evaluates
  the bias of its own window.
\<close>

theorem fkbias_own_window:
  "length (fkbias cfg) = K cfg \<and>
   (\<forall>k<K cfg. \<forall>x. call d (fkbias cfg ! k) x = bias_potential d x k)"
  by (simp add: fkbias_def call_def)

text \<open>
  In the example the function at position 1 evaluates the bias of window 1, not that of
  the last window 2.
\<close>

theorem fkbias_own_window_witness:
  "(1::nat) < K example_config
   \<and> length (fkbias example_config) = 3
   \<and> call example_data (fkbias example_config ! 1) 175 = bias_potential example_data 175 1
   \<and> call example_data (fkbias example_config ! 1) 175 = Inr (50 / (kB * 600))
   \<and> bias_potential example_data 175 2 = Inr (225 / (kB * 300))"
proof -
  have k: "(1::nat) < K example_config" by (simp add: example_config_def)
  have a: "\<forall>k<K example_config. \<forall>x.
      call example_data (fkbias example_config ! k) x = bias_potential example_data x k"
    using fkbias_own_window[of example_config example_data] by blast
  have l: "length (fkbias example_config) = 3"
    using fkbias_own_window[of example_config example_data] by (simp add: example_config_def)
  have b1: "bias_potential example_data 175 1 = Inr (50 / (kB * 600))"
    by (simp add: bias_potential_def example_data_def beta_k_def index_def rbind_def)
  have b2: "bias_potential example_data 175 2 = Inr (225 / (kB * 300))"
    by (simp add: bias_potential_def example_data_def beta_k_def index_def rbind_def)
  from a k have "call example_data (fkbias example_config ! 1) 175
      = bias_potential example_data 175 1" by blast
  with k l b1 b2 show ?thesis by simp
qed

subsection \<open>The reduced-energy matrix\<close>

lemma wrap_dchi_nth:
  "m < length ys \<Longrightarrow> length (wrap_dchi m ys) = length ys \<and>
     (\<forall>j<length ys. wrap_dchi m ys ! j = (if j = m then shortest_path (ys ! m) else ys ! j))"
  by (auto simp: wrap_dchi_def shortest_path_def)

lemma fold_wrap_dchi:
  "m \<le> length xs \<Longrightarrow>
     length (fold wrap_dchi [0..<m] xs) = length xs \<and>
     (\<forall>j<length xs. fold wrap_dchi [0..<m] xs ! j = (if j < m then shortest_path (xs ! j) else xs ! j))"
proof (induction m)
  case 0
  show ?case by simp
next
  case (Suc m)
  hence IH: "length (fold wrap_dchi [0..<m] xs) = length xs"
    "\<And>j. j < length xs \<Longrightarrow> fold wrap_dchi [0..<m] xs ! j = (if j < m then shortest_path (xs ! j) else xs ! j)"
    by simp_all
  have m: "m < length xs" using Suc.prems by simp
  have step: "fold wrap_dchi [0..<Suc m] xs = wrap_dchi m (fold wrap_dchi [0..<m] xs)"
    by simp
  show ?case
    unfolding step using wrap_dchi_nth[of m "fold wrap_dchi [0..<m] xs"] IH m
    by (auto simp: less_Suc_eq)
qed

lemma minimum_image_nth:
  assumes "length (chi0_k d) = K cfg" "l < K cfg"
  shows "length (minimum_image cfg d k n) = K cfg"
    and "minimum_image cfg d k n ! l = shortest_path (chi_kn d ! k ! n - chi0_k d ! l)"
  using fold_wrap_dchi[of "K cfg" "map (\<lambda>c. chi_kn d ! k ! n - c) (chi0_k d)"] assms
  by (simp_all add: minimum_image_def)

lemma set_kln_nth:
  assumes "shape3 Kw N u" "length vec = Kw" "k < Kw" "n < N"
  shows "shape3 Kw N (set_kln u k n vec)"
    and "\<And>k' l n'. k' < Kw \<Longrightarrow> l < Kw \<Longrightarrow> n' < N \<Longrightarrow>
          set_kln u k n vec ! k' ! l ! n' = (if k' = k \<and> n' = n then vec ! l else u ! k' ! l ! n')"
  using assms by (auto simp: shape3_def set_kln_def nth_list_update)

lemma energy_step_nth:
  assumes "shape3 (K cfg) N u" "length (chi0_k d) = K cfg" "length (K_k d) = K cfg"
    "k < K cfg" "n < N"
  shows "shape3 (K cfg) N (energy_step cfg d k n u)"
    and "\<And>k' l n'. k' < K cfg \<Longrightarrow> l < K cfg \<Longrightarrow> n' < N \<Longrightarrow>
          energy_step cfg d k n u ! k' ! l ! n' = (if k' = k \<and> n' = n then energy d k l n else u ! k' ! l ! n')"
proof -
  let ?vec = "map2 (\<lambda>Kl dl. u_kn d ! k ! n + beta_k d ! k * (Kl / 2) * dl\<^sup>2)
          (K_k d) (minimum_image cfg d k n)"
  have len: "length ?vec = K cfg"
    using minimum_image_nth(1)[OF assms(2) assms(4)] assms(3) by simp
  have vec: "?vec ! l = energy d k l n" if "l < K cfg" for l
    using minimum_image_nth[OF assms(2) that, of k n] assms(3) that
    by (simp add: energy_def)
  show "shape3 (K cfg) N (energy_step cfg d k n u)"
    unfolding energy_step_def using set_kln_nth(1)[OF assms(1) len assms(4,5)] .
  fix k' l n' assume h: "k' < K cfg" "l < K cfg" "n' < N"
  show "energy_step cfg d k n u ! k' ! l ! n' = (if k' = k \<and> n' = n then energy d k l n else u ! k' ! l ! n')"
    unfolding energy_step_def
    using set_kln_nth(2)[OF assms(1) len assms(4,5) h] vec[OF h(2)] by simp
qed

lemma window_loop:
  assumes "shape3 (K cfg) N u" "length (chi0_k d) = K cfg" "length (K_k d) = K cfg" "k < K cfg"
  shows "m \<le> N \<Longrightarrow> shape3 (K cfg) N (fold (energy_step cfg d k) [0..<m] u) \<and>
     (\<forall>k'<K cfg. \<forall>l<K cfg. \<forall>n'<N. fold (energy_step cfg d k) [0..<m] u ! k' ! l ! n'
          = (if k' = k \<and> n' < m then energy d k l n' else u ! k' ! l ! n'))"
proof (induction m)
  case 0
  show ?case using assms(1) by simp
next
  case (Suc m)
  let ?u = "fold (energy_step cfg d k) [0..<m] u"
  have IH: "shape3 (K cfg) N ?u"
    "\<And>k' l n'. k' < K cfg \<Longrightarrow> l < K cfg \<Longrightarrow> n' < N \<Longrightarrow>
       ?u ! k' ! l ! n' = (if k' = k \<and> n' < m then energy d k l n' else u ! k' ! l ! n')"
    using Suc by simp_all
  have m: "m < N" using Suc.prems by simp
  note st = energy_step_nth[OF IH(1) assms(2,3,4) m]
  show ?case
    using st IH(2) by (auto simp: less_Suc_eq)
qed

lemma all_windows_loop:
  assumes "shape3 (K cfg) N u" "length (chi0_k d) = K cfg" "length (K_k d) = K cfg"
    "\<forall>k<K cfg. N_k d ! k \<le> N"
  shows "j \<le> K cfg \<Longrightarrow>
     shape3 (K cfg) N (fold (\<lambda>k u. fold (energy_step cfg d k) [0..<N_k d ! k] u) [0..<j] u) \<and>
     (\<forall>k'<K cfg. \<forall>l<K cfg. \<forall>n'<N.
        fold (\<lambda>k u. fold (energy_step cfg d k) [0..<N_k d ! k] u) [0..<j] u ! k' ! l ! n'
          = (if k' < j \<and> n' < N_k d ! k' then energy d k' l n' else u ! k' ! l ! n'))"
proof (induction j)
  case 0
  show ?case using assms(1) by simp
next
  case (Suc j)
  let ?u = "fold (\<lambda>k u. fold (energy_step cfg d k) [0..<N_k d ! k] u) [0..<j] u"
  have IH: "shape3 (K cfg) N ?u"
    "\<And>k' l n'. k' < K cfg \<Longrightarrow> l < K cfg \<Longrightarrow> n' < N \<Longrightarrow>
       ?u ! k' ! l ! n' = (if k' < j \<and> n' < N_k d ! k' then energy d k' l n' else u ! k' ! l ! n')"
    using Suc by simp_all
  have j: "j < K cfg" using Suc.prems by simp
  hence le: "N_k d ! j \<le> N" using assms(4) by simp
  note w = window_loop[OF IH(1) assms(2,3) j le]
  show ?case
    using w IH(2) by (auto simp: less_Suc_eq)
qed

lemma shape3_zeros: "shape3 Kw N (replicate Kw (replicate Kw (replicate N 0)))"
  by (simp add: shape3_def)

text \<open>Every entry of a retained sample, at once.\<close>

lemma u_kln_energy:
  assumes "well_formed cfg d" and "0 < K cfg"
  shows "\<exists>u. u_kln cfg d = Inr u \<and> shape3 (K cfg) (Max (set (N_k d))) u \<and>
     (\<forall>k<K cfg. \<forall>l<K cfg. \<forall>n<N_k d ! k. u ! k ! l ! n = energy d k l n)"
proof -
  have len: "length (N_k d) = K cfg" "length (chi0_k d) = K cfg" "length (K_k d) = K cfg"
    using assms(1) by (simp_all add: well_formed_def)
  have ne: "N_k d \<noteq> []" using len(1) assms(2) by auto
  let ?N = "Max (set (N_k d))"
  have le: "\<forall>k<K cfg. N_k d ! k \<le> ?N" using len(1) by simp
  let ?u = "fold (\<lambda>k u. fold (energy_step cfg d k) [0..<N_k d ! k] u) [0..<K cfg]
              (replicate (K cfg) (replicate (K cfg) (replicate ?N 0)))"
  have "u_kln cfg d = Inr ?u" using ne by (simp add: u_kln_def N_max_retained_def rbind_def)
  moreover have "shape3 (K cfg) ?N ?u"
    using all_windows_loop[OF shape3_zeros len(2,3) le, of "K cfg"] by simp
  moreover have "?u ! k ! l ! n = energy d k l n"
    if "k < K cfg" "l < K cfg" "n < N_k d ! k" for k l n
  proof -
    have "n < ?N" using le that(1,3) by (meson less_le_trans)
    thus ?thesis
      using all_windows_loop[OF shape3_zeros len(2,3) le, of "K cfg"] that by simp
  qed
  ultimately show ?thesis by blast
qed

lemma well_formed_example: "well_formed example_config example_data"
  by (simp add: well_formed_def example_config_def example_data_def)

text \<open>
  What line 187 computes, on arrays of the script's shapes: for every window \<open>k\<close>, every
  bias window \<open>l\<close> and every retained sample \<open>n < N_k[k]\<close> the entry is \<open>u_kn[k][n]\<close> plus
  \<open>beta_k[k] * (K_k[l] / 2) * dchi\<^sup>2\<close>, where \<open>dchi\<close> is the difference
  \<open>chi_kn[k][n] - chi0_k[l]\<close>, replaced by \<open>360 - |dchi|\<close> when \<open>|dchi| > 180\<close>. The inverse
  temperature is that of the window the sample comes from.
\<close>

lemma u_kln_entry:
  assumes "well_formed cfg d" and "k < K cfg" and "l < K cfg" and "n < N_k d ! k"
  shows "\<exists>u. u_kln cfg d = Inr u \<and>
     u ! k ! l ! n = u_kn d ! k ! n
        + beta_k d ! k * (K_k d ! l / 2) * (shortest_path (chi_kn d ! k ! n - chi0_k d ! l))\<^sup>2"
proof -
  from assms(2) have "0 < K cfg" by simp
  from u_kln_energy[OF assms(1) this] assms(2,3,4) show ?thesis
    by (auto simp: energy_def)
qed

text \<open>
  Claim C1 gives the entry as \<open>u_kn[k][n]\<close> plus the harmonic bias
  \<open>beta * (K_k[l] / 2) * dchi\<^sup>2\<close> of the bias window \<open>l\<close>. The wrapped difference and the
  spring constant are as claimed, the inverse temperature is not: line 187 multiplies by
  \<open>beta_k[k]\<close>. In the example, for sample 0 of window 1 (at 600 K, torsion 10) under the
  bias of window 0 (at 300 K, center -170), the entry is \<open>3 + 32400 / (kB * 600)\<close>; with the
  inverse temperature of the bias window, and with the script's \<open>beta\<close> of line 60, the
  formula gives \<open>3 + 32400 / (kB * 300)\<close>.
\<close>

theorem u_kln_entry_beta_differs:
  "\<exists>u. u_kln example_config example_data = Inr u
     \<and> shortest_path (chi_kn example_data ! 1 ! 0 - chi0_k example_data ! 0) = 180
     \<and> u ! 1 ! 0 ! 0 = 3 + 32400 / (kB * 600)
     \<and> u_kn example_data ! 1 ! 0
          + beta_k example_data ! 0 * (K_k example_data ! 0 / 2)
            * (shortest_path (chi_kn example_data ! 1 ! 0 - chi0_k example_data ! 0))\<^sup>2
        = 3 + 32400 / (kB * 300)
     \<and> u_kn example_data ! 1 ! 0
          + beta example_config * (K_k example_data ! 0 / 2)
            * (shortest_path (chi_kn example_data ! 1 ! 0 - chi0_k example_data ! 0))\<^sup>2
        = 3 + 32400 / (kB * 300)
     \<and> u ! 1 ! 0 ! 0 \<noteq> 3 + 32400 / (kB * 300)"
proof -
  have K: "0 < K example_config" "1 < K example_config" "0 < N_k example_data ! 1"
    by (simp_all add: example_config_def example_data_def)
  from u_kln_energy[OF well_formed_example K(1)] obtain u where
    u: "u_kln example_config example_data = Inr u"
    and e: "\<forall>k<K example_config. \<forall>l<K example_config. \<forall>n<N_k example_data ! k.
              u ! k ! l ! n = energy example_data k l n"
    by blast
  from e K have "u ! 1 ! 0 ! 0 = energy example_data 1 0 0" by blast
  hence entry: "u ! 1 ! 0 ! 0 = 3 + 32400 / (kB * 600)"
    by (simp add: energy_def example_data_def beta_k_def shortest_path_def)
  have sp: "shortest_path (chi_kn example_data ! 1 ! 0 - chi0_k example_data ! 0) = 180"
    by (simp add: example_data_def shortest_path_def)
  have l: "u_kn example_data ! 1 ! 0
          + beta_k example_data ! 0 * (K_k example_data ! 0 / 2)
            * (shortest_path (chi_kn example_data ! 1 ! 0 - chi0_k example_data ! 0))\<^sup>2
        = 3 + 32400 / (kB * 300)"
    unfolding sp by (simp add: example_data_def beta_k_def)
  have g: "u_kn example_data ! 1 ! 0
          + beta example_config * (K_k example_data ! 0 / 2)
            * (shortest_path (chi_kn example_data ! 1 ! 0 - chi0_k example_data ! 0))\<^sup>2
        = 3 + 32400 / (kB * 300)"
    unfolding sp by (simp add: example_data_def example_config_def beta_def)
  have "(3::real) + 32400 / (kB * 600) \<noteq> 3 + 32400 / (kB * 300)"
    by (simp add: kB_def)
  with u entry sp l g show ?thesis by auto
qed

text \<open>
  Claim C3. When windows \<open>k\<close> and \<open>l\<close> have the same spring center and the same spring
  constant, the entries \<open>u_kln[k][l][n]\<close> and \<open>u_kln[k][k][n]\<close> of every retained sample
  \<open>n < N_k[k]\<close> are equal.
\<close>

theorem u_kln_equal_bias:
  assumes "well_formed cfg d" and "k < K cfg" and "l < K cfg" and "n < N_k d ! k"
    and "chi0_k d ! k = chi0_k d ! l" and "K_k d ! k = K_k d ! l"
  shows "\<exists>u. u_kln cfg d = Inr u \<and> u ! k ! l ! n = u ! k ! k ! n"
proof -
  from assms(2) have "0 < K cfg" by simp
  from u_kln_energy[OF assms(1) this] assms(2,3,4,5,6) show ?thesis
    by (auto simp: energy_def)
qed

text \<open>In the example, windows 0 and 2 share the center -170 and the constant 2.\<close>

theorem u_kln_equal_bias_witness:
  "well_formed example_config example_data \<and> (2::nat) < K example_config
   \<and> (0::nat) < K example_config \<and> 1 < N_k example_data ! 2
   \<and> chi0_k example_data ! 2 = chi0_k example_data ! 0
   \<and> K_k example_data ! 2 = K_k example_data ! 0
   \<and> (\<exists>u. u_kln example_config example_data = Inr u \<and> u ! 2 ! 0 ! 1 = u ! 2 ! 2 ! 1)"
proof -
  have h: "(2::nat) < K example_config" "(0::nat) < K example_config"
    "1 < N_k example_data ! 2" "chi0_k example_data ! 2 = chi0_k example_data ! 0"
    "K_k example_data ! 2 = K_k example_data ! 0"
    by (simp_all add: example_config_def example_data_def)
  from u_kln_equal_bias[OF well_formed_example h] well_formed_example h
  show ?thesis by blast
qed

text \<open>
  What \<open>bias_potential\<close> returns, and where it agrees with the bias added on line 187:
  wherever the two windows have the same temperature.
\<close>

lemma bias_potential_value:
  assumes "well_formed cfg d" and "l < K cfg"
  shows "bias_potential d x l
     = Inr (beta_k d ! l * (K_k d ! l / 2) * (shortest_path (x - chi0_k d ! l))\<^sup>2)"
  using assms
  by (simp add: bias_potential_def well_formed_def index_def rbind_def beta_k_def Let_def
      shortest_path_def)

lemma u_kln_bias_same_temperature:
  assumes "well_formed cfg d" and "k < K cfg" and "l < K cfg" and "n < N_k d ! k"
    and "T_k d ! k = T_k d ! l"
  shows "\<exists>u. u_kln cfg d = Inr u
     \<and> bias_potential d (chi_kn d ! k ! n) l = Inr (u ! k ! l ! n - u_kn d ! k ! n)"
proof -
  from assms(2) have "0 < K cfg" by simp
  from u_kln_energy[OF assms(1) this] obtain u where
    u: "u_kln cfg d = Inr u" and e: "u ! k ! l ! n = energy d k l n"
    using assms(2,3,4) by blast
  have "beta_k d ! k = beta_k d ! l"
    using assms by (simp add: beta_k_def well_formed_def)
  thus ?thesis
    using u e bias_potential_value[OF assms(1,3)] by (simp add: energy_def)
qed

text \<open>
  Claim C2 asks that the bias added on line 187 be the value of \<open>bias_potential\<close> for the
  bias window. At different temperatures it is not: line 187 multiplies by \<open>beta_k[k]\<close>,
  line 199 by the \<open>beta_k\<close> of the bias window. In the example, for sample 0 of window 0
  (at 300 K) under the bias of window 1 (at 600 K), the matrix adds \<open>50 / (kB * 300)\<close>
  and \<open>bias_potential\<close> returns \<open>50 / (kB * 600)\<close>, half of it.
\<close>

theorem u_kln_bias_differs:
  "\<exists>u v. u_kln example_config example_data = Inr u
     \<and> bias_potential example_data (chi_kn example_data ! 0 ! 0) 1 = Inr v
     \<and> u ! 0 ! 1 ! 0 - u_kn example_data ! 0 ! 0 = 50 / (kB * 300)
     \<and> v = 50 / (kB * 600)
     \<and> u ! 0 ! 1 ! 0 - u_kn example_data ! 0 ! 0 \<noteq> v"
proof -
  have K: "0 < K example_config" "1 < K example_config" "0 < N_k example_data ! 0"
    by (simp_all add: example_config_def example_data_def)
  from u_kln_energy[OF well_formed_example K(1)] obtain u where
    u: "u_kln example_config example_data = Inr u"
    and e: "\<forall>k<K example_config. \<forall>l<K example_config. \<forall>n<N_k example_data ! k.
              u ! k ! l ! n = energy example_data k l n"
    by blast
  from e K have "u ! 0 ! 1 ! 0 = energy example_data 0 1 0" by blast
  hence diff: "u ! 0 ! 1 ! 0 - u_kn example_data ! 0 ! 0 = 50 / (kB * 300)"
    by (simp add: energy_def example_data_def beta_k_def shortest_path_def)
  have v: "bias_potential example_data (chi_kn example_data ! 0 ! 0) 1 = Inr (50 / (kB * 600))"
    by (simp add: bias_potential_def example_data_def beta_k_def index_def rbind_def)
  have "(50::real) / (kB * 300) \<noteq> 50 / (kB * 600)"
    by (simp add: kB_def)
  with u diff v show ?thesis by auto
qed

subsection \<open>The ingestion\<close>



































text \<open>The small run, evaluated.\<close>

lemma upt2: "[0..<2] = [0, Suc 0]"
  by (simp add: upt_rec numeral_2_eq_2)


lemma wraps: "wrap_chi 190 = Some (-170)" "wrap_chi (-200) = Some 160" "wrap_chi 10 = Some 10"
  "wrap_chi 540 = Some (-180)"
proof -
  have r: "round64 (-170) = -170" "round64 160 = 160" "round64 180 = 180" "round64 (-180) = -180"
    using round64_of_int[of "-170"] round64_of_int[of 160] round64_of_int[of 180]
      round64_of_int[of "-180"] by simp_all
  show "wrap_chi 190 = Some (-170)" "wrap_chi (-200) = Some 160" "wrap_chi 10 = Some 10"
    "wrap_chi 540 = Some (-180)"
    by (simp_all add: wrap_chi_def wrap_below.simps wrap_above.simps r)
qed

lemma centers_small:
  "read_centers small_externals small_config small_centers (allocate small_config)
     = Inr ((allocate small_config)\<lparr>chi0_k := [0, 90],
          K_k := [100 * (pi / 180)\<^sup>2, 100 * (pi / 180)\<^sup>2], T_k := [300, 600]\<rparr>)"
  by (simp add: read_centers_def small_config_def upt2 read_center_def small_centers_def
      index_def rbind_def str_split_def is_space_def float_token_def small_externals_def
      allocate_def Let_def numeral_2_eq_2)

lemma ingest_small:
  "ingest small_externals small_config small_centers small_dihed small_energies = Inr small_data"
  by (simp add: ingest_def centers_small DifferentTemperatures_def rbind_def
      small_config_def[symmetric])
     (simp add: small_config_def upt2 read_window_def read_torsion_def read_energy_def
      is_data_line_def small_dihed_def small_energies_def float_token_def index_def rbind_def
      str_split_def is_space_def small_externals_def allocate_def Let_def numeral_2_eq_2
      wraps set_kn_def beta_k_def subsample_def correlation_def keep_indices_def gather_def
      index_int_def assign_prefix_def small_data_def)





lemma kB_pos: "0 < kB" by (simp add: kB_def)

lemma array_min_small: "array_min (u_kn small_data) = Inr (1 / (kB * 300))"
proof -
  have "(1::real) / (kB * 300) \<le> 2 / (kB * 300)" "(1::real) / (kB * 300) \<le> 5 / (kB * 600)"
    "(1::real) / (kB * 300) \<le> 4 / (kB * 600)"
    using kB_pos by (simp_all add: field_simps)
  thus ?thesis by (simp add: array_min_def small_data_def min_def)
qed

lemma array_min_tie: "array_min (u_kn tie_data) = Inr (-1)"
  by (simp add: array_min_def tie_data_def)

lemma round64_tie_numeral: "round64 (9007199254740993 / 9007199254740992) = 1"
  using round64_tie by simp

lemma rezero_tie: "rezero tie_data = Inr (tie_data\<lparr>u_kn := [[2, 1, 0]]\<rparr>)"
proof -
  have "round64 2 = 2" using round64_of_int[of 2] by simp
  moreover have "round64 0 = 0" by (simp add: round64_def)
  moreover have "map (map (\<lambda>u. round64 (u - (-1)))) (u_kn tie_data)
      = [[round64 2, round64 (9007199254740993 / 9007199254740992), round64 0]]"
    by (simp add: tie_data_def)
  ultimately have "map (map (\<lambda>u. round64 (u - (-1)))) (u_kn tie_data) = [[2, 1, 0]]"
    by (simp only: round64_tie_numeral)
  thus ?thesis by (simp only: rezero_def array_min_tie rbind_def sum.case)
qed

text \<open>
  Claim C10 says that the entries beyond a window's retained count are zero-initialised
  padding, so that the constant subtracted is the smaller of 0 and the smallest recorded
  energy, and that every pairwise difference is unchanged. In the small run both rows are
  filled by the energies read, the subsampling keeps one sample per window and leaves the
  other entry where it was, the array has no zero entry, and the constant is the positive
  entry \<open>1 / (kB * 300)\<close>. And the subtraction is rounded: the energies \<open>1\<close>, \<open>1 / 2 ^ 53\<close>
  and \<open>-1\<close> become \<open>2\<close>, \<open>1\<close> and \<open>0\<close>, so the first two differ by \<open>1 - 1 / 2 ^ 53\<close> before
  the shift and by \<open>1\<close> after it.
\<close>

theorem rezero_constant_counterexample:
  "ingest small_externals small_config small_centers small_dihed small_energies = Inr small_data
   \<and> N_k small_data = [1, 1]
   \<and> u_kn small_data ! 0 ! 1 = 1 / (kB * 300) \<and> u_kn small_data ! 0 ! 1 \<noteq> 0
   \<and> array_min (u_kn small_data) = Inr (1 / (kB * 300))
   \<and> array_min (u_kn small_data) \<noteq> Inr (min 0 (Min (set (retained small_data))))
   \<and> u_kn tie_data = [[1, 1 / 2 ^ 53, -1]]
   \<and> rezero tie_data = Inr (tie_data\<lparr>u_kn := [[2, 1, 0]]\<rparr>)
   \<and> (2::real) - 1 \<noteq> 1 - 1 / 2 ^ 53"
proof -
  have p: "0 < 1 / (kB * 300)" using kB_pos by simp
  have "min 0 (Min (set (retained small_data))) \<le> 0" by simp
  with p have "1 / (kB * 300) \<noteq> min 0 (Min (set (retained small_data)))" by linarith
  moreover have "u_kn small_data ! 0 ! 1 = 1 / (kB * 300)" by (simp add: small_data_def)
  moreover have "N_k small_data = [1, 1]" by (simp add: small_data_def)
  moreover have "u_kn tie_data = [[1, 1 / 2 ^ 53, -1]]" by (simp add: tie_data_def)
  moreover have "(2::real) - 1 \<noteq> 1 - 1 / 2 ^ 53" by simp
  ultimately show ?thesis using ingest_small array_min_small p rezero_tie by simp
qed

text \<open>
  Claim C10, amended. On a non-empty array the rezeroing subtracts one constant from every
  entry, in float64: the minimum over all entries of \<open>u_kn\<close> as they stand (the entries
  beyond the retained counts included, whatever they hold), which is at most every entry.
  After the shift every entry is non-negative and the minimum is exactly 0. The difference
  of two entries is what it was where both subtractions are exact.
\<close>

theorem rezero_shift:
  assumes "concat (u_kn d) \<noteq> []"
  shows "\<exists>m d'. array_min (u_kn d) = Inr m \<and> rezero d = Inr d'
     \<and> m = Min (set (concat (u_kn d)))
     \<and> (\<forall>x \<in> set (concat (u_kn d)). m \<le> x)
     \<and> length (u_kn d') = length (u_kn d)
     \<and> (\<forall>k<length (u_kn d). length (u_kn d' ! k) = length (u_kn d ! k)
          \<and> (\<forall>n<length (u_kn d ! k). u_kn d' ! k ! n = round64 (u_kn d ! k ! n - m)))
     \<and> (\<forall>x \<in> set (concat (u_kn d')). 0 \<le> x)
     \<and> Min (set (concat (u_kn d'))) = 0
     \<and> (\<forall>k<length (u_kn d). \<forall>n<length (u_kn d ! k).
          \<forall>k'<length (u_kn d). \<forall>n'<length (u_kn d ! k').
            round64 (u_kn d ! k ! n - m) = u_kn d ! k ! n - m \<longrightarrow>
            round64 (u_kn d ! k' ! n' - m) = u_kn d ! k' ! n' - m \<longrightarrow>
            u_kn d' ! k ! n - u_kn d' ! k' ! n' = u_kn d ! k ! n - u_kn d ! k' ! n')"
proof -
  let ?S = "set (concat (u_kn d))"
  let ?m = "Min ?S"
  let ?d' = "d\<lparr>u_kn := map (map (\<lambda>u. round64 (u - ?m))) (u_kn d)\<rparr>"
  have fin: "finite ?S" and ne: "?S \<noteq> {}" using assms by simp_all
  have am: "array_min (u_kn d) = Inr ?m" using assms by (simp add: array_min_def)
  have rz: "rezero d = Inr ?d'" using am by (simp add: rezero_def rbind_def)
  have le: "\<forall>x \<in> ?S. ?m \<le> x" using fin by simp
  have cc: "concat (u_kn ?d') = map (\<lambda>u. round64 (u - ?m)) (concat (u_kn d))"
    by (simp add: map_concat)
  have nonneg: "\<forall>x \<in> set (concat (u_kn ?d')). 0 \<le> x"
  proof
    fix x assume "x \<in> set (concat (u_kn ?d'))"
    then obtain u where u: "u \<in> ?S" and x: "x = round64 (u - ?m)"
      unfolding cc by (simp only: set_map) blast
    from le u have "0 \<le> u - ?m" by simp
    thus "0 \<le> x" unfolding x by (rule round64_nonneg)
  qed
  have "?m \<in> ?S" using fin ne by (rule Min_in)
  hence "round64 (?m - ?m) \<in> set (concat (u_kn ?d'))" unfolding cc by (simp only: set_map) blast
  hence z: "0 \<in> set (concat (u_kn ?d'))" by (simp add: round64_def)
  have zero: "Min (set (concat (u_kn ?d'))) = 0"
  proof (rule Min_eqI)
    show "finite (set (concat (u_kn ?d')))" by simp
    show "0 \<le> y" if "y \<in> set (concat (u_kn ?d'))" for y using nonneg that by blast
    show "0 \<in> set (concat (u_kn ?d'))" by (rule z)
  qed
  have ent: "\<forall>k<length (u_kn d). length (u_kn ?d' ! k) = length (u_kn d ! k)
          \<and> (\<forall>n<length (u_kn d ! k). u_kn ?d' ! k ! n = round64 (u_kn d ! k ! n - ?m))"
    by simp
  have diff: "\<forall>k<length (u_kn d). \<forall>n<length (u_kn d ! k).
          \<forall>k'<length (u_kn d). \<forall>n'<length (u_kn d ! k').
            round64 (u_kn d ! k ! n - ?m) = u_kn d ! k ! n - ?m \<longrightarrow>
            round64 (u_kn d ! k' ! n' - ?m) = u_kn d ! k' ! n' - ?m \<longrightarrow>
            u_kn ?d' ! k ! n - u_kn ?d' ! k' ! n' = u_kn d ! k ! n - u_kn d ! k' ! n'"
    by simp
  have len: "length (u_kn ?d') = length (u_kn d)" by simp
  show ?thesis
    using am rz le len ent nonneg zero diff by blast
qed

text \<open>The small run after the shift: the entry that was the minimum is 0.\<close>

theorem rezero_shift_witness:
  "concat (u_kn small_data) \<noteq> []
   \<and> (\<exists>d'. rezero small_data = Inr d'
        \<and> array_min (u_kn small_data) = Inr (1 / (kB * 300))
        \<and> u_kn d' ! 0 ! 1 = 0
        \<and> Min (set (concat (u_kn d'))) = 0)"
proof -
  have ne: "concat (u_kn small_data) \<noteq> []" by (simp add: small_data_def)
  from rezero_shift[OF ne] obtain m d' where
    m: "array_min (u_kn small_data) = Inr m" and d': "rezero small_data = Inr d'"
    and z: "Min (set (concat (u_kn d'))) = 0" by blast
  have "rezero small_data
      = Inr (small_data\<lparr>u_kn := map (map (\<lambda>u. round64 (u - 1 / (kB * 300)))) (u_kn small_data)\<rparr>)"
    by (simp add: rezero_def rbind_def array_min_small)
  with d' have "d' = small_data\<lparr>u_kn := map (map (\<lambda>u. round64 (u - 1 / (kB * 300)))) (u_kn small_data)\<rparr>"
    by simp
  hence "u_kn d' ! 0 ! 1 = 0"
    by (simp add: small_data_def round64_def)
  with ne d' z array_min_small show ?thesis by blast
qed

subsection \<open>The method loop and the sampler\<close>


lemma generate_result:
  assumes "generate lib cfg d chi_n req s = (r, s')"
  shows "f_i_kde s' = f_i_kde s" "spline_parameters s' = spline_parameters s"
    "calls s' = calls s @ [req]"
    "r = None \<Longrightarrow> generatePMF lib (pmf s) (u_kn d) chi_n req (nbootstraps cfg) = Inr (pmf s')"
  using assms by (auto simp: generate_def Let_def split: sum.splits)

lemma report_result: "report lib cfg method s = (r, s') \<Longrightarrow> s' = s"
  by (auto simp: report_def split: sum.splits if_splits option.splits)

lemma and_then_None:
  "and_then x f = (None, s') \<Longrightarrow> \<exists>s1. x = (None, s1) \<and> f s1 = (None, s')"
  by (cases x) (auto simp: and_then_def split: option.splits)

lemma and_then_cases:
  assumes "and_then x f = (r, s')"
  obtains (raised) e where "x = (Some e, s')" "r = Some e"
    | (went_on) s1 where "x = (None, s1)" "f s1 = (r, s')"
  using assms by (cases x) (auto simp: and_then_def split: option.splits)

lemma kde_branch_result:
  assumes "kde_branch lib cfg d chi_n s = (None, s')"
  shows "\<exists>f. f_i_kde s' = Some f \<and> kde_profile lib cfg d chi_n f"
    and "spline_parameters s' = spline_parameters s"
    and "calls s' = calls s @ [Kde (kde_parameters cfg)]"
proof -
  from assms have nb: "nbins cfg \<noteq> 0" by (auto simp: kde_branch_def split: if_splits)
  with assms obtain s1 where
    g: "generate lib cfg d chi_n (Kde (kde_parameters cfg)) s = (None, s1)" and
    q: "(case getPMF lib (pmf s1) (xstart cfg) ''from-lowest'' of
          Inl e \<Rightarrow> (Some e, s1)
        | Inr results \<Rightarrow> (None, s1\<lparr>f_i_kde := Some (f_i results)\<rparr>)) = (None, s')"
    by (auto simp: kde_branch_def dest!: and_then_None)
  from q obtain results where r: "getPMF lib (pmf s1) (xstart cfg) ''from-lowest'' = Inr results"
    and s': "s' = s1\<lparr>f_i_kde := Some (f_i results)\<rparr>"
    by (auto split: sum.splits)
  note gr = generate_result[OF g]
  have "kde_profile lib cfg d chi_n (f_i results)"
    unfolding kde_profile_def using gr(4) r by blast
  thus "\<exists>f. f_i_kde s' = Some f \<and> kde_profile lib cfg d chi_n f" by (simp add: s')
  show "spline_parameters s' = spline_parameters s" using gr(2) by (simp add: s')
  show "calls s' = calls s @ [Kde (kde_parameters cfg)]" using gr(3) by (simp add: s')
qed

lemma is_spline_method_names:
  assumes "is_spline_method method"
  shows "method \<noteq> []" "method \<noteq> ''histogram''" "method \<noteq> ''kde''"
  using assms by (auto simp: is_spline_method_def)

lemma yinit_251:
  "spline_parameters_251 cfg method kde ''yinit''
     = Some (PVec (case kde of Some f \<Rightarrow> f | None \<Rightarrow> replicate (2 * nsplines cfg) 0))"
  by (simp add: spline_parameters_251_def Let_def xstart_def linspace_def mult.commute
      split: option.splits)

lemma kdegree_of_digit:
  "method \<noteq> [] \<Longrightarrow> is_decimal_digit (last method) \<Longrightarrow>
     kdegree_of method = Inr (int (of_char (last method)) - 48)"
  "method \<noteq> [] \<Longrightarrow> \<not> is_decimal_digit (last method) \<Longrightarrow> kdegree_of method = Inl ValueError"
  by (auto simp: kdegree_of_def int_of_char_def is_decimal_digit_def Let_def)

lemma spline_branch_result:
  assumes "spline_branch lib cfg d chi_n method s = (r, s')" and "method \<noteq> []"
  shows "f_i_kde s' = f_i_kde s"
    and "\<exists>sp. spline_parameters s' = Some sp \<and>
           sp ''yinit'' = Some (PVec (case f_i_kde s of Some f \<Rightarrow> f
                                       | None \<Rightarrow> replicate (2 * nsplines cfg) 0))"
    and "is_decimal_digit (last method) \<Longrightarrow>
           \<exists>sp. calls s' = calls s @ [Spline sp] \<and> spline_parameters s' = Some sp
             \<and> sp ''kdegree'' = Some (PInt (int (of_char (last method)) - 48))
             \<and> sp ''spline_weights'' = spline_parameters_251 cfg method (f_i_kde s) ''spline_weights''"
    and "\<not> is_decimal_digit (last method) \<Longrightarrow> r = Some ValueError \<and> calls s' = calls s"
proof -
  let ?sp = "spline_parameters_251 cfg method (f_i_kde s)"
  show "f_i_kde s' = f_i_kde s"
    using assms(1) generate_result(1)
    by (fastforce simp: spline_branch_def Let_def split: sum.splits)
  show "\<exists>sp. spline_parameters s' = Some sp \<and>
           sp ''yinit'' = Some (PVec (case f_i_kde s of Some f \<Rightarrow> f
                                       | None \<Rightarrow> replicate (2 * nsplines cfg) 0))"
  proof (cases "kdegree_of method")
    case (Inl e)
    with assms(1) show ?thesis by (auto simp: spline_branch_def Let_def yinit_251)
  next
    case (Inr kd)
    let ?sp' = "?sp(''kdegree'' \<mapsto> PInt kd,
        ''optimization_algorithm'' \<mapsto> PStr (optimization_algorithm cfg),
        ''optimize_options'' \<mapsto> optimize_options)"
    from Inr assms(1) have "generate lib cfg d chi_n (Spline ?sp') (s\<lparr>spline_parameters := Some ?sp'\<rparr>) = (r, s')"
      by (simp add: spline_branch_def Let_def)
    from generate_result(2)[OF this] show ?thesis by (simp add: yinit_251)
  qed
  show "\<exists>sp. calls s' = calls s @ [Spline sp] \<and> spline_parameters s' = Some sp
             \<and> sp ''kdegree'' = Some (PInt (int (of_char (last method)) - 48))
             \<and> sp ''spline_weights'' = ?sp ''spline_weights''"
    if dg: "is_decimal_digit (last method)"
  proof -
    let ?kd = "int (of_char (last method)) - 48"
    let ?sp' = "?sp(''kdegree'' \<mapsto> PInt ?kd,
        ''optimization_algorithm'' \<mapsto> PStr (optimization_algorithm cfg),
        ''optimize_options'' \<mapsto> optimize_options)"
    from kdegree_of_digit(1)[OF assms(2) dg] assms(1)
    have "generate lib cfg d chi_n (Spline ?sp') (s\<lparr>spline_parameters := Some ?sp'\<rparr>) = (r, s')"
      by (simp add: spline_branch_def Let_def)
    from generate_result(2,3)[OF this] show ?thesis by simp
  qed
  show "r = Some ValueError \<and> calls s' = calls s" if "\<not> is_decimal_digit (last method)"
    using kdegree_of_digit(2)[OF assms(2) that] assms(1)
    by (auto simp: spline_branch_def Let_def)
qed

lemma method_body_of_spline:
  assumes "is_spline_method method"
  shows "method_body lib cfg d chi_n method s
     = and_then (spline_branch lib cfg d chi_n method s) (report lib cfg method)"
  using is_spline_method_names[OF assms] assms by (simp add: method_body_def and_then_def)

lemma method_body_spline_result:
  assumes "is_spline_method method"
  shows "\<exists>r0. spline_branch lib cfg d chi_n method s
              = (r0, snd (method_body lib cfg d chi_n method s))
           \<and> (r0 \<noteq> None \<longrightarrow> fst (method_body lib cfg d chi_n method s) = r0)"
proof -
  obtain r s' where b: "method_body lib cfg d chi_n method s = (r, s')"
    by (cases "method_body lib cfg d chi_n method s")
  hence "and_then (spline_branch lib cfg d chi_n method s) (report lib cfg method) = (r, s')"
    by (simp add: method_body_of_spline[OF assms])
  thus ?thesis
  proof (cases rule: and_then_cases)
    case (raised e)
    thus ?thesis by (simp add: b)
  next
    case (went_on s1)
    from report_result[OF went_on(2)] went_on(1) show ?thesis by (simp add: b)
  qed
qed

text \<open>
  Claim C9. For a method of the spline family the degree is read from the last character
  of the name. When that character is a decimal digit, the loop body calls the fit with
  \<open>kdegree\<close> set to the digit's value, a number from 0 to 9. When it is not, the loop body
  raises ValueError and no fit has been called.
\<close>

theorem kdegree_last_character:
  assumes "is_spline_method method"
  shows "if is_decimal_digit (last method)
         then (\<exists>sp. calls (snd (method_body lib cfg d chi_n method s)) = calls s @ [Spline sp]
                \<and> sp ''kdegree'' = Some (PInt (int (of_char (last method)) - 48))
                \<and> 0 \<le> int (of_char (last method)) - 48 \<and> int (of_char (last method)) - 48 \<le> 9)
         else (fst (method_body lib cfg d chi_n method s) = Some ValueError
                \<and> calls (snd (method_body lib cfg d chi_n method s)) = calls s)"
proof -
  obtain r0 where
    b: "spline_branch lib cfg d chi_n method s = (r0, snd (method_body lib cfg d chi_n method s))"
    and r: "r0 \<noteq> None \<longrightarrow> fst (method_body lib cfg d chi_n method s) = r0"
    using method_body_spline_result[OF assms, of lib cfg d chi_n s] by blast
  have ne: "method \<noteq> []" by (rule is_spline_method_names(1)[OF assms])
  show ?thesis
  proof (cases "is_decimal_digit (last method)")
    case True
    from spline_branch_result(3)[OF b ne True] True show ?thesis
      by (auto simp: is_decimal_digit_def)
  next
    case False
    from spline_branch_result(4)[OF b ne False] r False show ?thesis by auto
  qed
qed

text \<open>The method \<^verbatim>\<open>'simple-3'\<close> is fitted with degree 3; the method \<^verbatim>\<open>'kl-x'\<close> raises.\<close>

theorem kdegree_last_character_witness:
  "is_spline_method ''simple-3'' \<and> is_decimal_digit (last ''simple-3'')
   \<and> (\<exists>sp. calls (snd (method_body example_library small_config small_data [] ''simple-3'' start))
          = calls start @ [Spline sp] \<and> sp ''kdegree'' = Some (PInt 3))
   \<and> is_spline_method ''kl-x'' \<and> \<not> is_decimal_digit (last ''kl-x'')
   \<and> fst (method_body example_library small_config small_data [] ''kl-x'' start) = Some ValueError
   \<and> calls (snd (method_body example_library small_config small_data [] ''kl-x'' start)) = calls start"
proof -
  have a: "is_spline_method ''simple-3''" "is_decimal_digit (last ''simple-3'')"
    "int (of_char (last ''simple-3'')) - 48 = 3"
    by (simp_all add: is_spline_method_def is_decimal_digit_def)
  have b: "is_spline_method ''kl-x''" "\<not> is_decimal_digit (last ''kl-x'')"
    by (simp_all add: is_spline_method_def is_decimal_digit_def)
  from kdegree_last_character[OF a(1), of example_library small_config small_data "[]" start] a(2,3)
  have 1: "\<exists>sp. calls (snd (method_body example_library small_config small_data [] ''simple-3'' start))
          = calls start @ [Spline sp] \<and> sp ''kdegree'' = Some (PInt 3)"
    by auto
  from kdegree_last_character[OF b(1), of example_library small_config small_data "[]" start] b(2)
  have 2: "fst (method_body example_library small_config small_data [] ''kl-x'' start) = Some ValueError
   \<and> calls (snd (method_body example_library small_config small_data [] ''kl-x'' start)) = calls start"
    by simp
  from a b 1 2 show ?thesis by blast
qed

lemma method_body_f_i_kde:
  assumes "method_body lib cfg d chi_n method s = (None, s')"
  shows "method = ''kde'' \<Longrightarrow> \<exists>f. f_i_kde s' = Some f \<and> kde_profile lib cfg d chi_n f"
    and "method \<noteq> ''kde'' \<Longrightarrow> f_i_kde s' = f_i_kde s"
proof -
  from assms obtain s1 s2 s3 where
    A: "(if method = ''histogram'' then histogram_branch lib cfg d chi_n s else (None, s)) = (None, s1)" and
    B: "(if method = ''kde'' then kde_branch lib cfg d chi_n s1 else (None, s1)) = (None, s2)" and
    C: "(if is_spline_method method then spline_branch lib cfg d chi_n method s2 else (None, s2)) = (None, s3)" and
    R: "report lib cfg method s3 = (None, s')"
    unfolding method_body_def by (blast dest: and_then_None)
  have s': "s' = s3" by (rule report_result[OF R])
  have f1: "f_i_kde s1 = f_i_kde s"
    using A generate_result(1) by (fastforce simp: histogram_branch_def split: if_splits)
  have f3: "f_i_kde s3 = f_i_kde s2"
  proof (cases "is_spline_method method")
    case True
    with C have b: "spline_branch lib cfg d chi_n method s2 = (None, s3)" by simp
    from spline_branch_result(1)[OF b is_spline_method_names(1)[OF True]] show ?thesis .
  next
    case False
    with C show ?thesis by simp
  qed
  show "\<exists>f. f_i_kde s' = Some f \<and> kde_profile lib cfg d chi_n f" if "method = ''kde''"
    using B that kde_branch_result(1)[of lib cfg d chi_n s1 s2] f3 s' by simp
  show "f_i_kde s' = f_i_kde s" if "method \<noteq> ''kde''"
    using B that f1 f3 s' by simp
qed

lemma method_loop_f_i_kde:
  assumes "method_loop lib cfg d chi_n ms s = (None, s')"
    and "if ''kde'' \<in> set pre then \<exists>f. f_i_kde s = Some f \<and> kde_profile lib cfg d chi_n f
         else f_i_kde s = None"
  shows "if ''kde'' \<in> set (pre @ ms) then \<exists>f. f_i_kde s' = Some f \<and> kde_profile lib cfg d chi_n f
         else f_i_kde s' = None"
  using assms
proof (induction ms arbitrary: pre s)
  case Nil
  thus ?case by (auto split: if_splits)
next
  case (Cons m ms)
  from Cons.prems(1) obtain s1 where
    b: "method_body lib cfg d chi_n m s = (None, s1)" and
    l: "method_loop lib cfg d chi_n ms s1 = (None, s')"
    by (auto split: prod.splits option.splits)
  have "if ''kde'' \<in> set (pre @ [m]) then \<exists>f. f_i_kde s1 = Some f \<and> kde_profile lib cfg d chi_n f
         else f_i_kde s1 = None"
  proof (cases "m = ''kde''")
    case True
    with method_body_f_i_kde(1)[OF b] show ?thesis by simp
  next
    case False
    with method_body_f_i_kde(2)[OF b] Cons.prems(2) show ?thesis by simp
  qed
  from Cons.IH[OF l this] show ?case by simp
qed

text \<open>
  Claim C8. Let the methods \<open>earlier\<close> have run without error from a state in which
  \<open>f_i_kde\<close> is \<^verbatim>\<open>None\<close>, and let a spline-family method come next. Its dictionary then has
  a \<open>yinit\<close>: the all-zeros vector of length \<open>2 * nsplines\<close> when \<^verbatim>\<open>'kde'\<close> is not among the
  earlier methods, and a KDE profile at the points \<open>xstart\<close> with uncertainties
  \<^verbatim>\<open>'from-lowest'\<close> when it is.
\<close>

theorem yinit_fallback:
  assumes "method_loop lib cfg d chi_n earlier s0 = (None, s)" and "f_i_kde s0 = None"
    and "is_spline_method method"
  shows "\<exists>sp. spline_parameters (snd (method_body lib cfg d chi_n method s)) = Some sp
     \<and> (''kde'' \<notin> set earlier \<longrightarrow> sp ''yinit'' = Some (PVec (replicate (2 * nsplines cfg) 0)))
     \<and> (''kde'' \<in> set earlier \<longrightarrow>
          (\<exists>f. kde_profile lib cfg d chi_n f \<and> sp ''yinit'' = Some (PVec f)))"
proof -
  have k: "if ''kde'' \<in> set earlier then \<exists>f. f_i_kde s = Some f \<and> kde_profile lib cfg d chi_n f
         else f_i_kde s = None"
    using method_loop_f_i_kde[OF assms(1), of "[]"] assms(2) by simp
  obtain r0 where
    b: "spline_branch lib cfg d chi_n method s = (r0, snd (method_body lib cfg d chi_n method s))"
    using method_body_spline_result[OF assms(3), of lib cfg d chi_n s] by blast
  from spline_branch_result(2)[OF b is_spline_method_names(1)[OF assms(3)]] k
  show ?thesis by (auto split: if_splits)
qed

lemma colors_kde: "colors ''kde'' = Some ''k-''" "colors ''simple-3'' = Some ''m-.''"
  by (simp_all add: colors_def)

lemma xstart_small: "xstart small_config = [-180, 180]"
  by (simp add: xstart_def small_config_def linspace_def upt2)

lemma report_example:
  "colors method = Some fmt \<Longrightarrow> report example_library cfg method s = (None, s)"
  by (simp add: report_def example_library_def length_bin_center_i)

lemma loop_kde_small:
  "method_loop example_library small_config small_data [] [''kde''] start = (None, after_kde)"
proof -
  have "kde_branch example_library small_config small_data [] start = (None, after_kde)"
    by (simp add: kde_branch_def generate_def and_then_def xstart_small start_def after_kde_def
        example_library_def Let_def) (simp add: small_config_def)
  thus ?thesis
    by (simp add: method_body_def and_then_def is_spline_method_def report_example[OF colors_kde(1)])
qed

text \<open>With one spline (two points): zeros with no method before, a KDE profile after \<^verbatim>\<open>'kde'\<close>.\<close>

theorem yinit_fallback_witness:
  "method_loop example_library small_config small_data [] [] start = (None, start)
   \<and> f_i_kde start = None \<and> is_spline_method ''simple-3'' \<and> ''kde'' \<notin> set []
   \<and> (\<exists>sp. spline_parameters (snd (method_body example_library small_config small_data []
                ''simple-3'' start)) = Some sp
          \<and> sp ''yinit'' = Some (PVec [0, 0]))
   \<and> method_loop example_library small_config small_data [] [''kde''] start = (None, after_kde)
   \<and> ''kde'' \<in> set [''kde'']
   \<and> (\<exists>sp f. spline_parameters (snd (method_body example_library small_config small_data []
                ''simple-3'' after_kde)) = Some sp
          \<and> kde_profile example_library small_config small_data [] f
          \<and> sp ''yinit'' = Some (PVec f))"
proof -
  have m: "is_spline_method ''simple-3''" by (simp add: is_spline_method_def)
  have n: "f_i_kde start = None" by (simp add: start_def)
  have l0: "method_loop example_library small_config small_data [] [] start = (None, start)"
    by simp
  have r: "replicate (2 * nsplines small_config) (0::real) = [0, 0]"
    by (simp add: small_config_def numeral_2_eq_2)
  from yinit_fallback[OF l0 n m] have 1: "\<exists>sp. spline_parameters (snd (method_body
      example_library small_config small_data [] ''simple-3'' start)) = Some sp
          \<and> sp ''yinit'' = Some (PVec [0, 0])"
    by (simp add: r)
  from yinit_fallback[OF loop_kde_small n m] have 2: "\<exists>sp f. spline_parameters (snd (method_body
      example_library small_config small_data [] ''simple-3'' after_kde)) = Some sp
          \<and> kde_profile example_library small_config small_data [] f
          \<and> sp ''yinit'' = Some (PVec f)"
    by auto
  from l0 n m 1 2 loop_kde_small show ?thesis by simp
qed







end
